theory Spec2Isabelle
  imports Main
begin

unbundle bit_operations_syntax

section \<open>The environment of scripts/postinstall-codex-global.js\<close>

text \<open>
  The script is a straight line of calls into Node's \<^verbatim>\<open>fs\<close>, \<^verbatim>\<open>path\<close>, \<^verbatim>\<open>os\<close>,
  \<^verbatim>\<open>child_process\<close> and \<^verbatim>\<open>process\<close>. The model threads a \<open>world\<close> through
  every function: the process parameters the script reads, the file system it reads and
  writes, and a trace of every external call and log line, in the order they happen.
  \<^verbatim>\<open>process.exit(c)\<close> is the result \<open>Exit c\<close>; a function that runs to its end gives
  \<open>Return\<close>.

  JavaScript strings are modelled as \<open>string\<close>, one \<open>char\<close> per code unit below 256.
  A value that may be \<^verbatim>\<open>undefined\<close> or \<^verbatim>\<open>null\<close> is an \<open>option\<close>. The content of a
  file is a \<open>string\<close> too, one \<open>char\<close> per byte.

  What lies outside the script is a parameter of the world: \<open>fault\<close> says which file
  system call fails and with which error, \<open>torn\<close> says how far a failing write got,
  \<open>spawn\<close> gives the result of a subprocess, \<open>umask\<close> is the file mode creation
  mask of the process. A subprocess is taken to return its result without changing the
  files the script works on.

  \<^verbatim>\<open>os.homedir()\<close> either returns a string or throws: on POSIX it returns \<^verbatim>\<open>HOME\<close> when
  that variable is set and otherwise looks the user up in the password database, and it
  throws a \<^verbatim>\<open>SystemError\<close> when there is no entry. The field
  \<open>os_homedir\<close> is \<open>Inr h\<close> for the string it returns and \<open>Inl e\<close> for the error it
  throws. Both calls of the script stand outside any \<^verbatim>\<open>try\<close>, so the error is never
  caught: Node reports it on the standard error stream and the process exits with
  status 1. The trace records this as the event \<open>Uncaught e\<close>.
\<close>

type_synonym path = string

datatype js_error = JsError (err_name: string) (message: string) (stack: string)

datatype node = File (file_content: string) (file_mode: int) | Dir (dir_mode: int)

datatype fsop =
    ExistsSync path
  | StatSync path
  | MkdirSync path
  | ReadFileSync path
  | WriteFileSync path string int
  | ChmodSync path int

datatype level = INFO | WARN | ERROR

datatype event =
    Log level string
  | StdoutWrite string
  | StderrWrite string
  | FsCall fsop
  | SpawnSync string "string list"
  | Uncaught js_error

text \<open>What \<^verbatim>\<open>spawnSync\<close> returns; \<open>res_duration\<close> is the wall-clock time that
  \<^verbatim>\<open>runCapture\<close> measures around the call.\<close>

record spawn_res =
  res_status :: "int option"
  res_signal :: "string option"
  res_stdout :: "string option"
  res_stderr :: "string option"
  res_error :: "js_error option"
  res_duration :: nat

record world =
  os_homedir :: "js_error + string"
  env :: "string \<rightharpoonup> string"
  cwd :: string
  platform :: string
  execPath :: string
  version :: string
  arch :: string
  umask :: int
  fs :: "path \<rightharpoonup> node"
  fault :: "fsop \<Rightarrow> js_error option"
  torn :: "fsop \<Rightarrow> nat option"
  spawn :: "string \<Rightarrow> string list \<Rightarrow> spawn_res"
  trace :: "event list"

datatype 'a result = Exit int | Return 'a

subsection \<open>JavaScript values\<close>

definition truthy :: "string option \<Rightarrow> bool" where
  "truthy v = (case v of None \<Rightarrow> False | Some s \<Rightarrow> s \<noteq> [])"

text \<open>\<^verbatim>\<open>a || b\<close> on values that are strings or undefined.\<close>

definition js_or :: "string option \<Rightarrow> string option \<Rightarrow> string option" where
  "js_or a b = (if truthy a then a else b)"

text \<open>\<^verbatim>\<open>String(v)\<close>, also what a template literal prints.\<close>

definition String :: "string option \<Rightarrow> string" where
  "String v = (case v of None \<Rightarrow> ''undefined'' | Some s \<Rightarrow> s)"

definition digit_char :: "nat \<Rightarrow> char" where
  "digit_char d = char_of (48 + d)"

function show_base :: "nat \<Rightarrow> nat \<Rightarrow> string" where
  "show_base b n =
     (if b < 2 \<or> n < b then [digit_char n]
      else show_base b (n div b) @ [digit_char (n mod b)])"
  by pat_completeness auto
termination
  by (relation "measure (\<lambda>(b, n). n)") auto

definition show_nat :: "nat \<Rightarrow> string" where
  "show_nat n = show_base 10 n"

definition show_int :: "int \<Rightarrow> string" where
  "show_int i = (if i < 0 then CHR ''-'' # show_nat (nat (- i)) else show_nat (nat i))"

definition show_status :: "int option \<Rightarrow> string" where
  "show_status s = (case s of None \<Rightarrow> ''null'' | Some i \<Rightarrow> show_int i)"

definition show_bool :: "bool \<Rightarrow> string" where
  "show_bool b = (if b then ''true'' else ''false'')"

text \<open>\<^verbatim>\<open>String.prototype.trim\<close>: the white space and line terminators below code
  unit 256 are TAB, LF, VT, FF, CR, SPACE and NBSP.\<close>

definition is_space :: "char \<Rightarrow> bool" where
  "is_space c = (of_char c \<in> {9, 10, 11, 12, 13, 32, 160 :: nat})"

definition trim :: "string \<Rightarrow> string" where
  "trim s = rev (dropWhile is_space (rev (dropWhile is_space s)))"

text \<open>The UTF-8 encoding of a string, which is what \<^verbatim>\<open>fs.writeFileSync\<close> writes when it
  is given a string: a code unit below 128 is one byte, and a code unit \<open>n\<close> from 128 to
  255 is the two bytes \<open>192 + n div 64\<close> and \<open>128 + n mod 64\<close>.\<close>

definition utf8_unit :: "char \<Rightarrow> string" where
  "utf8_unit c =
     (if of_char c < (128::nat) then [c]
      else [char_of (192 + of_char c div (64::nat)), char_of (128 + of_char c mod (64::nat))])"

definition utf8 :: "string \<Rightarrow> string" where
  "utf8 s = concat (map utf8_unit s)"

text \<open>\<^verbatim>\<open>Buffer.byteLength(s, 'utf-8')\<close>: the number of bytes of that encoding.\<close>

definition byteLength :: "string \<Rightarrow> nat" where
  "byteLength s = length (utf8 s)"

text \<open>\<^verbatim>\<open>Error.prototype.toString\<close>.\<close>

definition error_toString :: "js_error \<Rightarrow> string" where
  "error_toString e =
     (if err_name e = [] then message e
      else if message e = [] then err_name e
      else err_name e @ '': '' @ message e)"

definition newline :: string where
  "newline = [char_of (10::nat)]"

subsection \<open>\<^verbatim>\<open>path.join\<close>\<close>

text \<open>The separator is the backslash on win32 and the slash elsewhere. The script joins
  a base directory with fixed segments that contain no separator and no dot segment, so
  joining is concatenation; the base directories are taken as \<^verbatim>\<open>path.join\<close> would
  leave them (already normalised).\<close>

definition sep :: "world \<Rightarrow> char" where
  "sep w = (if platform w = ''win32'' then char_of (92::nat) else CHR ''/'')"

fun path_join :: "world \<Rightarrow> string list \<Rightarrow> path" where
  "path_join w [] = ''.''"
| "path_join w [a] = a"
| "path_join w (a # b # rest) = a @ sep w # path_join w (b # rest)"

subsection \<open>Logging\<close>

text \<open>Every line the script logs starts with the same \<^verbatim>\<open>PREFIX\<close> (a timestamp and the
  pid, fixed when the script is loaded); the trace keeps the level and the text after it.\<close>

definition emit :: "event \<Rightarrow> world \<Rightarrow> world" where
  "emit e w = w\<lparr>trace := trace w @ [e]\<rparr>"

definition info :: "string \<Rightarrow> world \<Rightarrow> world" where
  "info msg w = emit (Log INFO msg) w"

definition warn :: "string \<Rightarrow> world \<Rightarrow> world" where
  "warn msg w = emit (Log WARN msg) w"

definition error :: "string \<Rightarrow> world \<Rightarrow> world" where
  "error msg w = emit (Log ERROR msg) w"

subsection \<open>The \<^verbatim>\<open>fs\<close> calls the script makes\<close>

text \<open>
  A call fails when the world's \<open>fault\<close> says so (permissions, a full disk, any error
  of the operating system) or when the path holds the wrong kind of node. A file that a
  write creates gets the requested mode less the bits of the process umask; a file that
  exists keeps its mode. \<^verbatim>\<open>existsSync\<close> never throws. \<^verbatim>\<open>mkdirSync\<close> is the
  recursive one the script calls: a directory that exists is no error, and only the
  directory itself is tracked, not its ancestors. The text of an error raised for a
  wrong kind of node is schematic.

  \<^verbatim>\<open>fs.writeFileSync\<close> opens the file with \<^verbatim>\<open>O_CREAT | O_TRUNC\<close> and then writes. A
  write that fails may therefore fail at the open and leave the file system as it was
  (\<open>torn\<close> is \<open>None\<close>), or fail after the open and leave a file that holds only the first
  \<open>n\<close> bytes of the data, none of them when \<open>n\<close> is 0 (\<open>torn\<close> is \<open>Some n\<close>).

  The modes are the permission bits of a POSIX file system. On win32 Node keeps nothing of
  a mode but the read-only flag, so there the mode of a node in this model says nothing
  about the file.
\<close>

definition sys_error :: "string \<Rightarrow> string \<Rightarrow> path \<Rightarrow> js_error" where
  "sys_error code call p =
     JsError ''Error'' (code @ '': '' @ call @ '' '' @ p) (''Error: '' @ code @ '': '' @ call @ '' '' @ p)"

definition existsSync :: "path \<Rightarrow> world \<Rightarrow> bool \<times> world" where
  "existsSync p w = (fs w p \<noteq> None, emit (FsCall (ExistsSync p)) w)"

definition mkdirSync :: "path \<Rightarrow> world \<Rightarrow> (js_error + unit) \<times> world" where
  "mkdirSync p w =
     (let w' = emit (FsCall (MkdirSync p)) w in
      case fault w (MkdirSync p) of
        Some e \<Rightarrow> (Inl e, w')
      | None \<Rightarrow>
          (case fs w p of
             Some (File c m) \<Rightarrow> (Inl (sys_error ''EEXIST'' ''mkdir'' p), w')
           | Some (Dir m) \<Rightarrow> (Inr (), w')
           | None \<Rightarrow> (Inr (), w'\<lparr>fs := (fs w)(p \<mapsto> Dir (511 AND NOT (umask w)))\<rparr>)))"

definition readFileSync :: "path \<Rightarrow> world \<Rightarrow> (js_error + string) \<times> world" where
  "readFileSync p w =
     (let w' = emit (FsCall (ReadFileSync p)) w in
      case fault w (ReadFileSync p) of
        Some e \<Rightarrow> (Inl e, w')
      | None \<Rightarrow>
          (case fs w p of
             Some (File c m) \<Rightarrow> (Inr c, w')
           | Some (Dir m) \<Rightarrow> (Inl (sys_error ''EISDIR'' ''read'' p), w')
           | None \<Rightarrow> (Inl (sys_error ''ENOENT'' ''open'' p), w')))"

text \<open>The file system after the file at \<open>p\<close> has been opened for writing (created with
  the mode less the umask, or truncated) and the bytes \<open>bytes\<close> have been written to it.
  A directory cannot be opened for writing.\<close>

definition written :: "world \<Rightarrow> path \<Rightarrow> string \<Rightarrow> int \<Rightarrow> path \<rightharpoonup> node" where
  "written w p bytes mode =
     (case fs w p of
        Some (File c m) \<Rightarrow> (fs w)(p \<mapsto> File bytes m)
      | Some (Dir m) \<Rightarrow> fs w
      | None \<Rightarrow> (fs w)(p \<mapsto> File bytes (mode AND NOT (umask w))))"

definition writeFileSync :: "path \<Rightarrow> string \<Rightarrow> int \<Rightarrow> world \<Rightarrow> (js_error + unit) \<times> world" where
  "writeFileSync p data mode w =
     (let w' = emit (FsCall (WriteFileSync p data mode)) w in
      case fault w (WriteFileSync p data mode) of
        Some e \<Rightarrow>
          (case torn w (WriteFileSync p data mode) of
             None \<Rightarrow> (Inl e, w')
           | Some n \<Rightarrow> (Inl e, w'\<lparr>fs := written w p (take n data) mode\<rparr>))
      | None \<Rightarrow>
          (case fs w p of
             Some (Dir m) \<Rightarrow> (Inl (sys_error ''EISDIR'' ''open'' p), w')
           | _ \<Rightarrow> (Inr (), w'\<lparr>fs := written w p data mode\<rparr>)))"

definition chmodSync :: "path \<Rightarrow> int \<Rightarrow> world \<Rightarrow> (js_error + unit) \<times> world" where
  "chmodSync p mode w =
     (let w' = emit (FsCall (ChmodSync p mode)) w in
      case fault w (ChmodSync p mode) of
        Some e \<Rightarrow> (Inl e, w')
      | None \<Rightarrow>
          (case fs w p of
             Some (File c m) \<Rightarrow> (Inr (), w'\<lparr>fs := (fs w)(p \<mapsto> File c mode)\<rparr>)
           | Some (Dir m) \<Rightarrow> (Inr (), w'\<lparr>fs := (fs w)(p \<mapsto> Dir mode)\<rparr>)
           | None \<Rightarrow> (Inl (sys_error ''ENOENT'' ''chmod'' p), w')))"

text \<open>\<^verbatim>\<open>fs.statSync\<close>: the mode of the \<^verbatim>\<open>Stats\<close> object carries the file type bits
  (\<^verbatim>\<open>S_IFREG = 0o100000\<close>, \<^verbatim>\<open>S_IFDIR = 0o040000\<close>) above the permission bits.\<close>

definition statSync :: "path \<Rightarrow> world \<Rightarrow> (js_error + int) \<times> world" where
  "statSync p w =
     (let w' = emit (FsCall (StatSync p)) w in
      case fault w (StatSync p) of
        Some e \<Rightarrow> (Inl e, w')
      | None \<Rightarrow>
          (case fs w p of
             Some (File c m) \<Rightarrow> (Inr (32768 OR m), w')
           | Some (Dir m) \<Rightarrow> (Inr (16384 OR m), w')
           | None \<Rightarrow> (Inl (sys_error ''ENOENT'' ''stat'' p), w')))"

section \<open>The script\<close>

text \<open>\<^verbatim>\<open>statSafe\<close>: the \<^verbatim>\<open>Stats\<close> object is modelled by its mode.\<close>

definition statSafe :: "path \<Rightarrow> world \<Rightarrow> int option \<times> world" where
  "statSafe p w =
     (case statSync p w of
        (Inr st, w') \<Rightarrow> (Some st, w')
      | (Inl e, w') \<Rightarrow> (None, w'))"

text \<open>\<^verbatim>\<open>modeStr\<close>: \<open>None\<close> is an argument that is not a number.\<close>

definition modeStr :: "int option \<Rightarrow> string" where
  "modeStr mode =
     (case mode of
        None \<Rightarrow> ''n/a''
      | Some m \<Rightarrow> CHR ''0'' # show_base 8 (nat (m AND 4095)))"

record capture =
  ok :: bool
  status :: "int option"
  signal :: "string option"
  stdout :: string
  stderr :: string
  duration_ms :: nat
  error_of :: "js_error option"

text \<open>\<^verbatim>\<open>args.join(' ')\<close>. In \<^verbatim>\<open>runCapture\<close> below, the parameter \<^verbatim>\<open>opts\<close> is left out:
  no call of the script passes it.\<close>

fun join_args :: "string list \<Rightarrow> string" where
  "join_args [] = []"
| "join_args [a] = a"
| "join_args (a # b # rest) = a @ '' '' @ join_args (b # rest)"

definition runCapture :: "string \<Rightarrow> string list \<Rightarrow> world \<Rightarrow> capture \<times> world" where
  "runCapture cmd args w =
     (let res = spawn w cmd args;
          w1 = emit (SpawnSync cmd args) w;
          out = \<lparr> ok = (res_status res = Some 0),
                  status = res_status res,
                  signal = (if truthy (res_signal res) then res_signal res else None),
                  stdout = (if truthy (res_stdout res) then String (res_stdout res) else []),
                  stderr = (if truthy (res_stderr res) then String (res_stderr res) else []),
                  duration_ms = res_duration res,
                  error_of = res_error res \<rparr>;
          w2 = info (''run: '' @ cmd @ '' '' @ join_args args @ '' [status='' @ show_status (status out)
                     @ '' dur='' @ show_nat (duration_ms out) @ ''ms]'') w1;
          w3 = (if stdout out \<noteq> [] then emit (StdoutWrite (''stdout: '' @ stdout out)) w2 else w2);
          w4 = (if stderr out \<noteq> [] then emit (StderrWrite (''stderr: '' @ stderr out)) w3 else w3);
          w5 = (case error_of out of
                  None \<Rightarrow> w4
                | Some e \<Rightarrow>
                    error (''spawn error: '' @ (if message e \<noteq> [] then message e else error_toString e)) w4)
      in (out, w5))"

text \<open>\<^verbatim>\<open>os.homedir() || process.env.HOME || process.env.USERPROFILE\<close>, where \<open>h\<close> is the
  string that \<^verbatim>\<open>os.homedir()\<close> returned.\<close>

definition home_or_env :: "string \<Rightarrow> world \<Rightarrow> string option" where
  "home_or_env h w = js_or (js_or (Some h) (env w ''HOME'')) (env w ''USERPROFILE'')"

text \<open>An exception that nothing catches: Node prints the error with its stack to the
  standard error stream and the process exits with status 1.\<close>

definition uncaught :: "js_error \<Rightarrow> world \<Rightarrow> unit result \<times> world" where
  "uncaught e w = (Exit 1, emit (Uncaught e) w)"

definition codexDir_of :: "world \<Rightarrow> string \<Rightarrow> path" where
  "codexDir_of w home = path_join w [home, ''.codex'']"

definition authPath_of :: "world \<Rightarrow> string \<Rightarrow> path" where
  "authPath_of w home = path_join w [codexDir_of w home, ''auth.json'']"

definition destConfigPath_of :: "world \<Rightarrow> string \<Rightarrow> path" where
  "destConfigPath_of w home = path_join w [codexDir_of w home, ''config.toml'']"

definition repoConfigPath_of :: "world \<Rightarrow> path" where
  "repoConfigPath_of w = path_join w [cwd w, ''.codex'', ''config.toml'']"

text \<open>The \<^verbatim>\<open>catch\<close> blocks of the two provisioning steps.\<close>

definition catch_exit :: "string \<Rightarrow> js_error \<Rightarrow> world \<Rightarrow> unit result \<times> world" where
  "catch_exit what err w =
     (Exit 1,
      error (what @ (if message err \<noteq> [] then message err else error_toString err)
             @ newline @ (if stack err \<noteq> [] then stack err else [])) w)"

definition ensureAuthFromEnvIfMissing :: "world \<Rightarrow> unit result \<times> world" where
  "ensureAuthFromEnvIfMissing w =
     (case os_homedir w of
        Inl thrown \<Rightarrow> uncaught thrown w
      | Inr h \<Rightarrow> (
      let home = home_or_env h w in
      if \<not> truthy home then
        (Return (), warn ''Could not resolve home directory; skip ~/.codex/auth.json bootstrap'' w)
      else
        let codexDir = codexDir_of w (String home);
            authPath = authPath_of w (String home);
            (authExists, w1) = existsSync authPath w;
            w2 = info (''auth path: '' @ authPath @ '' exists='' @ show_bool authExists) w1
        in
        if authExists then (Return (), w2)
        else
          let secret = env w2 ''CODEX_AUTH_JSON'' in
          if \<not> truthy secret \<or> length (trim (String secret)) = 0 then
            (Return (), info ''CODEX_AUTH_JSON not set; skipping auth.json creation'' w2)
          else
            let w3 = info (''creating '' @ codexDir) w2 in
            case mkdirSync codexDir w3 of
              (Inl err, w4) \<Rightarrow> catch_exit ''Failed to write ~/.codex/auth.json: '' err w4
            | (Inr u, w4) \<Rightarrow>
                let bytes = byteLength (String secret) in
                (case writeFileSync authPath (utf8 (String secret)) 384 w4 of
                   (Inl err, w5) \<Rightarrow> catch_exit ''Failed to write ~/.codex/auth.json: '' err w5
                 | (Inr u, w5) \<Rightarrow>
                     let w6 = snd (chmodSync authPath 384 w5);
                         (st, w7) = statSafe authPath w6
                     in (Return (),
                         info (''wrote auth to '' @ authPath @ '' size='' @ show_nat bytes @ ''B mode=''
                               @ (case st of Some m \<Rightarrow> modeStr (Some m) | None \<Rightarrow> ''n/a'')) w7))))"

definition ensureConfigTomlFromRepo :: "world \<Rightarrow> unit result \<times> world" where
  "ensureConfigTomlFromRepo w =
     (let repoConfigPath = repoConfigPath_of w;
          w1 = info (''repo config candidate: '' @ repoConfigPath) w;
          (repoExists, w2) = existsSync repoConfigPath w1
      in
      if \<not> repoExists then
        (Exit 2, error ''::error::.codex/config.toml not found in repo; aborting per fail-fast policy'' w2)
      else
        case os_homedir w2 of
          Inl thrown \<Rightarrow> uncaught thrown w2
        | Inr h \<Rightarrow> (
        let home = home_or_env h w2 in
        if \<not> truthy home then
          (Exit 1, error ''HOME not set; cannot locate ~/.codex for config.toml'' w2)
        else
          let codexDir = codexDir_of w2 (String home);
              destConfigPath = destConfigPath_of w2 (String home);
              w3 = info (''ensure ~/.codex dir: '' @ codexDir) w2
          in
          case mkdirSync codexDir w3 of
            (Inl err, w4) \<Rightarrow> catch_exit ''Failed to install ~/.codex/config.toml: '' err w4
          | (Inr u, w4) \<Rightarrow>
              (case readFileSync repoConfigPath w4 of
                 (Inl err, w5) \<Rightarrow> catch_exit ''Failed to install ~/.codex/config.toml: '' err w5
               | (Inr content, w5) \<Rightarrow>
                   let w6 = info (''read repo config bytes='' @ show_nat (length content)) w5 in
                   (case writeFileSync destConfigPath content 384 w6 of
                      (Inl err, w7) \<Rightarrow> catch_exit ''Failed to install ~/.codex/config.toml: '' err w7
                    | (Inr u, w7) \<Rightarrow>
                        let w8 = snd (chmodSync destConfigPath 384 w7);
                            (st, w9) = statSafe destConfigPath w8
                        in (Return (),
                            info (''installed config to '' @ destConfigPath @ '' size=''
                                  @ show_nat (length content) @ ''B mode=''
                                  @ (case st of Some m \<Rightarrow> modeStr (Some m) | None \<Rightarrow> ''n/a'')) w9)))))"

record entry =
  command :: string
  args :: "string list"

text \<open>The \<^verbatim>\<open>for\<close> loop of \<^verbatim>\<open>findLocalCodexEntrypoint\<close> over the candidate names.\<close>

fun find_candidate :: "path \<Rightarrow> string list \<Rightarrow> world \<Rightarrow> entry option \<times> world" where
  "find_candidate binDir [] w = (None, w)"
| "find_candidate binDir (name # names) w =
     (let candidate = path_join w [binDir, name];
          (found, w1) = existsSync candidate w
      in if found then
           (Some \<lparr>command = candidate, args = []\<rparr>,
            info (''resolved local codex binary at '' @ candidate) w1)
         else find_candidate binDir names w1)"

definition candidates :: "world \<Rightarrow> string list" where
  "candidates w =
     (if platform w = ''win32'' then [''codex.cmd'', ''codex.exe'', ''codex''] else [''codex''])"

definition codexJs_of :: "world \<Rightarrow> path" where
  "codexJs_of w = path_join w [cwd w, ''node_modules'', ''@openai'', ''codex'', ''bin'', ''codex.js'']"

definition binDir_of :: "world \<Rightarrow> path" where
  "binDir_of w = path_join w [cwd w, ''node_modules'', ''.bin'']"

definition findLocalCodexEntrypoint :: "world \<Rightarrow> entry option \<times> world" where
  "findLocalCodexEntrypoint w =
     (let projectRoot = cwd w;
          codexJs = codexJs_of w;
          (found, w1) = existsSync codexJs w
      in if found then
           let nodeBin = (if execPath w1 \<noteq> [] then execPath w1 else ''node'') in
           (Some \<lparr>command = nodeBin, args = [codexJs]\<rparr>,
            info (''resolved local codex.js at '' @ codexJs @ '' using node '' @ nodeBin) w1)
         else find_candidate (binDir_of w1) (candidates w1) w1)"

definition verifyLocalCodex :: "entry \<Rightarrow> world \<Rightarrow> unit result \<times> world" where
  "verifyLocalCodex e w =
     (let (res, w1) = runCapture (command e) (args e @ [''--version'']) w in
      if \<not> ok res then
        (Exit (case status res of None \<Rightarrow> 1 | Some s \<Rightarrow> s),
         error ''Local Codex CLI invocation failed; ensure @openai/codex is installed'' w1)
      else (Return (), info ''codex installation verified via local dependency'' w1))"

text \<open>The environment probe at the head of \<^verbatim>\<open>main\<close>.\<close>

definition probe :: "world \<Rightarrow> world" where
  "probe w =
     (let w1 = info ''=== BEGIN codex postinstall (local) ==='' w;
          w2 = info (''node: '' @ version w1 @ '' platform: '' @ platform w1 @ '' arch: '' @ arch w1) w1;
          w3 = info (''cwd: '' @ cwd w2) w2;
          w4 = info (''PATH: '' @ String (env w3 ''PATH'')) w3;
          (whichNode, w5) = runCapture (if platform w4 = ''win32'' then ''where'' else ''which'') [''node''] w4
      in info (''node resolved ok='' @ show_bool (ok whichNode)) w5)"

definition main :: "world \<Rightarrow> unit result \<times> world" where
  "main w =
     (let w1 = probe w in
      case ensureAuthFromEnvIfMissing w1 of
        (Exit c, w2) \<Rightarrow> (Exit c, w2)
      | (Return u, w2) \<Rightarrow>
          (case ensureConfigTomlFromRepo w2 of
             (Exit c, w3) \<Rightarrow> (Exit c, w3)
           | (Return u, w3) \<Rightarrow>
               (case findLocalCodexEntrypoint w3 of
                  (None, w4) \<Rightarrow>
                    (Exit 1,
                     error ''Could not resolve local Codex CLI. Run `npm install` to install @openai/codex.'' w4)
                | (Some e, w4) \<Rightarrow>
                    (case verifyLocalCodex e w4 of
                       (Exit c, w5) \<Rightarrow> (Exit c, w5)
                     | (Return u, w5) \<Rightarrow>
                         (Return (), info ''=== END codex postinstall (local) ==='' w5)))))"

text \<open>The status the process ends with: the argument of \<^verbatim>\<open>process.exit\<close>, or 0 when
  \<^verbatim>\<open>main\<close> returns.\<close>

definition exit_code :: "unit result \<times> world \<Rightarrow> int" where
  "exit_code r = (case fst r of Exit c \<Rightarrow> c | Return u \<Rightarrow> 0)"

section \<open>Observing a run\<close>

text \<open>The events a run adds to the trace, between the world it starts in and the world
  it ends in.\<close>

definition events :: "world \<Rightarrow> world \<Rightarrow> event list" where
  "events w w' = drop (length (trace w)) (trace w')"

fun fsop_path :: "fsop \<Rightarrow> path" where
  "fsop_path (ExistsSync p) = p"
| "fsop_path (StatSync p) = p"
| "fsop_path (MkdirSync p) = p"
| "fsop_path (ReadFileSync p) = p"
| "fsop_path (WriteFileSync p d m) = p"
| "fsop_path (ChmodSync p m) = p"

text \<open>The calls that change the file system: creating a directory, writing a file,
  changing a mode.\<close>

fun fsop_mutates :: "fsop \<Rightarrow> bool" where
  "fsop_mutates (MkdirSync p) = True"
| "fsop_mutates (WriteFileSync p d m) = True"
| "fsop_mutates (ChmodSync p m) = True"
| "fsop_mutates (ExistsSync p) = False"
| "fsop_mutates (StatSync p) = False"
| "fsop_mutates (ReadFileSync p) = False"

fun is_write :: "event \<Rightarrow> bool" where
  "is_write (FsCall c) = fsop_mutates c"
| "is_write (Log l m) = False"
| "is_write (StdoutWrite s) = False"
| "is_write (StderrWrite s) = False"
| "is_write (SpawnSync c a) = False"
| "is_write (Uncaught e) = False"


text \<open>A call on path \<open>p\<close> other than the existence check: one that reads the node, its
  content or its mode, or changes it.\<close>

fun opens :: "path \<Rightarrow> event \<Rightarrow> bool" where
  "opens p (FsCall (ExistsSync q)) = False"
| "opens p (FsCall (StatSync q)) = (q = p)"
| "opens p (FsCall (MkdirSync q)) = (q = p)"
| "opens p (FsCall (ReadFileSync q)) = (q = p)"
| "opens p (FsCall (WriteFileSync q d m)) = (q = p)"
| "opens p (FsCall (ChmodSync q m)) = (q = p)"
| "opens p (Log l m) = False"
| "opens p (StdoutWrite s) = False"
| "opens p (StderrWrite s) = False"
| "opens p (SpawnSync c a) = False"
| "opens p (Uncaught e) = False"

text \<open>The home directory the two provisioning steps work with: the value of
  \<^verbatim>\<open>os.homedir() || process.env.HOME || process.env.USERPROFILE\<close> when \<^verbatim>\<open>os.homedir()\<close>
  returns, and nothing when it throws.\<close>

definition resolve_home :: "world \<Rightarrow> string option" where
  "resolve_home w = (case os_homedir w of Inl e \<Rightarrow> None | Inr h \<Rightarrow> home_or_env h w)"

text \<open>The bytes of the file at a path, if a file is there.\<close>

definition read_content :: "world \<Rightarrow> path \<Rightarrow> string option" where
  "read_content w p = (case fs w p of Some (File c m) \<Rightarrow> Some c | Some (Dir m) \<Rightarrow> None | None \<Rightarrow> None)"

text \<open>The part of the world no call of the script changes: everything but the file
  system and the trace.\<close>

definition static :: "world \<Rightarrow> world" where
  "static w = w\<lparr>fs := Map.empty, trace := []\<rparr>"

text \<open>The steps of \<^verbatim>\<open>main\<close> before entrypoint resolution: the probe, the credential
  step and the configuration step.\<close>

definition provision :: "world \<Rightarrow> unit result \<times> world" where
  "provision w =
     (case ensureAuthFromEnvIfMissing (probe w) of
        (Exit c, w2) \<Rightarrow> (Exit c, w2)
      | (Return u, w2) \<Rightarrow> ensureConfigTomlFromRepo w2)"

text \<open>The run from \<open>w\<close> to \<open>w'\<close> only adds events to the trace, and each of them
  satisfies \<open>P\<close>.\<close>

definition ext :: "(event \<Rightarrow> bool) \<Rightarrow> world \<Rightarrow> world \<Rightarrow> bool" where
  "ext P w w' = (\<exists>es. trace w' = trace w @ es \<and> list_all P es)"

text \<open>What the process prints: log lines, the echoed output of a subprocess, and the
  report of an uncaught exception.\<close>

fun is_output :: "event \<Rightarrow> bool" where
  "is_output (Log l m) = True"
| "is_output (StdoutWrite s) = True"
| "is_output (StderrWrite s) = True"
| "is_output (FsCall c) = False"
| "is_output (SpawnSync c a) = False"
| "is_output (Uncaught e) = True"

text \<open>The run from \<open>w\<close> to \<open>w'\<close> leaves the node at path \<open>p\<close> as it was.\<close>

definition keeps :: "path \<Rightarrow> world \<Rightarrow> world \<Rightarrow> bool" where
  "keeps p w w' = (fs w' p = fs w p)"

text \<open>The guard of line 82, negated: the credential variable holds something that
  \<^verbatim>\<open>trim()\<close> does not reduce to the empty string.\<close>

definition secret_given :: "world \<Rightarrow> bool" where
  "secret_given w =
     (truthy (env w ''CODEX_AUTH_JSON'') \<and> trim (String (env w ''CODEX_AUTH_JSON'')) \<noteq> [])"

text \<open>The condition under which \<^verbatim>\<open>ensureAuthFromEnvIfMissing\<close> enters its \<^verbatim>\<open>try\<close>
  block: the home directory resolves, nothing exists at the credential path, and the
  variable holds a value.\<close>

definition credential_due :: "world \<Rightarrow> bool" where
  "credential_due w =
     (truthy (resolve_home w) \<and> fs w (authPath_of w (String (resolve_home w))) = None \<and> secret_given w)"

text \<open>The text that a sequence of bytes encodes, for the encodings of code units below
  256: a byte below 128 stands for itself, and a byte from 192 on starts a sequence of two
  bytes.\<close>

fun utf8_decode :: "string \<Rightarrow> string" where
  "utf8_decode (b # c # bs) =
     (if of_char b < (128::nat) then b # utf8_decode (c # bs)
      else char_of ((of_char b - (192::nat)) * 64 + (of_char c - 128)) # utf8_decode bs)"
| "utf8_decode [b] = [b]"
| "utf8_decode [] = []"

text \<open>The condition under which the copy of \<^verbatim>\<open>ensureConfigTomlFromRepo\<close> goes through:
  the home directory resolves, the repository path holds a file, no file stands where the
  directory \<^verbatim>\<open>~/.codex\<close> belongs and no directory where the destination belongs, and
  none of \<^verbatim>\<open>mkdirSync\<close>, \<^verbatim>\<open>readFileSync\<close> and \<^verbatim>\<open>writeFileSync\<close> fails. Whether the
  directory or the destination exists already plays no part.\<close>

definition copy_goes_through :: "world \<Rightarrow> bool" where
  "copy_goes_through w =
     (truthy (resolve_home w)
      \<and> fault w (MkdirSync (codexDir_of w (String (resolve_home w)))) = None
      \<and> read_content w (codexDir_of w (String (resolve_home w))) = None
      \<and> fault w (ReadFileSync (repoConfigPath_of w)) = None
      \<and> (case fs w (repoConfigPath_of w) of
            Some (File c m) \<Rightarrow>
              fault w (WriteFileSync (destConfigPath_of w (String (resolve_home w))) c 384) = None
          | Some (Dir m) \<Rightarrow> False
          | None \<Rightarrow> False)
      \<and> (case fs w (destConfigPath_of w (String (resolve_home w))) of
            Some (Dir m) \<Rightarrow> False
          | Some (File c m) \<Rightarrow> True
          | None \<Rightarrow> True))"


section \<open>Example worlds\<close>

text \<open>A checkout at \<^verbatim>\<open>/repo\<close> on Linux with the repository configuration and the
  installed CLI script, a home directory without \<^verbatim>\<open>.codex\<close>, no credential variable,
  no failing call, and subprocesses that exit with status 0.\<close>

definition exited :: "int option \<Rightarrow> spawn_res" where
  "exited st =
     \<lparr> res_status = st, res_signal = (if st = None then Some ''SIGKILL'' else None),
       res_stdout = Some ''out'', res_stderr = None, res_error = None, res_duration = 3 \<rparr>"

text \<open>Subprocesses: the lookup of \<^verbatim>\<open>node\<close> ends with \<open>look\<close>, any other command with
  \<open>st\<close>.\<close>

definition spawns :: "int option \<Rightarrow> int option \<Rightarrow> string \<Rightarrow> string list \<Rightarrow> spawn_res" where
  "spawns look st cmd as = (if as = [''node''] then exited look else exited st)"

definition repo_files :: "path \<rightharpoonup> node" where
  "repo_files =
     [''/repo/.codex/config.toml'' \<mapsto> File ''model = o3'' 420,
      ''/repo/node_modules/@openai/codex/bin/codex.js'' \<mapsto> File ''#!/usr/bin/env node'' 493]"

definition base_world :: world where
  "base_world =
     \<lparr> os_homedir = Inr ''/home/u'', env = [''PATH'' \<mapsto> ''/usr/bin''], cwd = ''/repo'',
       platform = ''linux'', execPath = ''/usr/bin/node'', version = ''v20.1.0'', arch = ''x64'',
       umask = 18, fs = repo_files, fault = (\<lambda>c. None), torn = (\<lambda>c. None),
       spawn = spawns (Some 0) (Some 0), trace = [] \<rparr>"

text \<open>The version query exits with status 3; the version query is killed by a signal.\<close>

definition w_status3 :: world where
  "w_status3 = base_world\<lparr>spawn := spawns (Some 0) (Some 3)\<rparr>"

definition w_killed :: world where
  "w_killed = base_world\<lparr>spawn := spawns (Some 0) None\<rparr>"

text \<open>The credential variable holds \<^verbatim>\<open>secret-blob\<close>; it holds two spaces.\<close>

definition w_secret :: world where
  "w_secret = base_world\<lparr>env := [''CODEX_AUTH_JSON'' \<mapsto> ''secret-blob'']\<rparr>"

definition w_blank :: world where
  "w_blank = base_world\<lparr>env := [''CODEX_AUTH_JSON'' \<mapsto> ''  '']\<rparr>"



text \<open>No home directory: \<^verbatim>\<open>HOME\<close> is set to the empty string, which is what
  \<^verbatim>\<open>os.homedir()\<close> then returns, and \<^verbatim>\<open>USERPROFILE\<close> is not set; the same with the
  repository configuration missing.\<close>

definition w_nohome :: world where
  "w_nohome =
     base_world\<lparr>os_homedir := Inr [], env := [''PATH'' \<mapsto> ''/usr/bin'', ''HOME'' \<mapsto> []]\<rparr>"

definition w_nohome_noconfig :: world where
  "w_nohome_noconfig = w_nohome\<lparr>fs := Map.empty\<rparr>"

text \<open>The credential file is there already, and the variable holds another value.\<close>

definition w_authexists :: world where
  "w_authexists =
     base_world\<lparr>env := [''CODEX_AUTH_JSON'' \<mapsto> ''new-secret''],
                 fs := repo_files(''/home/u/.codex/auth.json'' \<mapsto> File ''old-secret'' 384)\<rparr>"



text \<open>The lookup of \<^verbatim>\<open>node\<close> exits with status 1.\<close>

definition w_lookup_fails :: world where
  "w_lookup_fails = base_world\<lparr>spawn := spawns (Some 1) (Some 0)\<rparr>"

text \<open>The credential variable is set and writing the credential file fails; and the same
  with a failing \<^verbatim>\<open>chmod\<close> under a umask that clears the owner's bits.\<close>

definition eacces :: js_error where
  "eacces = JsError ''Error'' ''EACCES: permission denied'' ''Error: EACCES: permission denied''"

definition w_write_fails :: world where
  "w_write_fails =
     w_secret\<lparr>fault := (\<lambda>c. case c of WriteFileSync p d m \<Rightarrow> Some eacces | _ \<Rightarrow> None)\<rparr>"

definition w_chmod_fails :: world where
  "w_chmod_fails =
     w_secret\<lparr>umask := 511, fault := (\<lambda>c. case c of ChmodSync p m \<Rightarrow> Some eacces | _ \<Rightarrow> None)\<rparr>"


text \<open>Writing the credential file fails after the file was opened, before any byte was
  written; and after the first six bytes were written.\<close>

definition w_write_torn :: world where
  "w_write_torn = w_write_fails\<lparr>torn := (\<lambda>c. Some 0)\<rparr>"

definition w_write_torn6 :: world where
  "w_write_torn6 = w_write_fails\<lparr>torn := (\<lambda>c. Some 6)\<rparr>"

text \<open>The credential variable holds \<^verbatim>\<open>k\<close> and the code unit 233 (e with an acute
  accent), whose encoding is the two bytes 195 and 169.\<close>

definition w_secret_accent :: world where
  "w_secret_accent = base_world\<lparr>env := [''CODEX_AUTH_JSON'' \<mapsto> [CHR ''k'', char_of (233::nat)]]\<rparr>"

text \<open>\<^verbatim>\<open>os.homedir()\<close> throws: \<^verbatim>\<open>HOME\<close> is not set and the user has no entry in the
  password database. The same with the credential variable holding two spaces, with
  \<^verbatim>\<open>USERPROFILE\<close> set, and with the repository configuration missing.\<close>

definition no_passwd_entry :: js_error where
  "no_passwd_entry =
     JsError ''SystemError''
       ''A system error occurred: uv_os_homedir returned ENOENT (no such file or directory)''
       ''SystemError [ERR_SYSTEM_ERROR]: A system error occurred: uv_os_homedir returned ENOENT (no such file or directory)''"

definition w_homedir_throws :: world where
  "w_homedir_throws = base_world\<lparr>os_homedir := Inl no_passwd_entry\<rparr>"


definition w_homedir_throws_userprofile :: world where
  "w_homedir_throws_userprofile =
     w_homedir_throws\<lparr>env := [''USERPROFILE'' \<mapsto> ''/home/u'']\<rparr>"


text \<open>The home directory already holds a configuration file with other content and
  mode 0644.\<close>

definition w_stale :: world where
  "w_stale = base_world\<lparr>fs := repo_files(''/home/u/.codex/config.toml'' \<mapsto> File ''model = old'' 420)\<rparr>"

text \<open>The same with the directory \<^verbatim>\<open>~/.codex\<close> itself in the file system, as an earlier
  run leaves it.\<close>

definition w_stale_dir :: world where
  "w_stale_dir =
     base_world\<lparr>fs := repo_files(''/home/u/.codex'' \<mapsto> Dir 493,
                                    ''/home/u/.codex/config.toml'' \<mapsto> File ''model = old'' 420)\<rparr>"




section \<open>Properties of the steps\<close>

subsection \<open>The home directory\<close>

lemma truthy_home_returns: "truthy (resolve_home w) \<Longrightarrow> \<exists>h. os_homedir w = Inr h"
  by (cases "os_homedir w") (simp_all add: resolve_home_def truthy_def)


text \<open>The two provisioning steps, with the home directory written as \<open>resolve_home\<close>.\<close>

lemma ensureAuth_unfold:
  "ensureAuthFromEnvIfMissing w =
     (case os_homedir w of
        Inl thrown \<Rightarrow> uncaught thrown w
      | Inr h \<Rightarrow> (
      let home = resolve_home w in
      if \<not> truthy home then
        (Return (), warn ''Could not resolve home directory; skip ~/.codex/auth.json bootstrap'' w)
      else
        let codexDir = codexDir_of w (String home);
            authPath = authPath_of w (String home);
            (authExists, w1) = existsSync authPath w;
            w2 = info (''auth path: '' @ authPath @ '' exists='' @ show_bool authExists) w1
        in
        if authExists then (Return (), w2)
        else
          let secret = env w2 ''CODEX_AUTH_JSON'' in
          if \<not> truthy secret \<or> length (trim (String secret)) = 0 then
            (Return (), info ''CODEX_AUTH_JSON not set; skipping auth.json creation'' w2)
          else
            let w3 = info (''creating '' @ codexDir) w2 in
            case mkdirSync codexDir w3 of
              (Inl err, w4) \<Rightarrow> catch_exit ''Failed to write ~/.codex/auth.json: '' err w4
            | (Inr u, w4) \<Rightarrow>
                let bytes = byteLength (String secret) in
                (case writeFileSync authPath (utf8 (String secret)) 384 w4 of
                   (Inl err, w5) \<Rightarrow> catch_exit ''Failed to write ~/.codex/auth.json: '' err w5
                 | (Inr u, w5) \<Rightarrow>
                     let w6 = snd (chmodSync authPath 384 w5);
                         (st, w7) = statSafe authPath w6
                     in (Return (),
                         info (''wrote auth to '' @ authPath @ '' size='' @ show_nat bytes @ ''B mode=''
                               @ (case st of Some m \<Rightarrow> modeStr (Some m) | None \<Rightarrow> ''n/a'')) w7))))"
  by (cases "os_homedir w") (simp_all add: ensureAuthFromEnvIfMissing_def resolve_home_def)

lemma ensureConfig_unfold:
  "ensureConfigTomlFromRepo w =
     (let repoConfigPath = repoConfigPath_of w;
          w1 = info (''repo config candidate: '' @ repoConfigPath) w;
          (repoExists, w2) = existsSync repoConfigPath w1
      in
      if \<not> repoExists then
        (Exit 2, error ''::error::.codex/config.toml not found in repo; aborting per fail-fast policy'' w2)
      else
        case os_homedir w of
          Inl thrown \<Rightarrow> uncaught thrown w2
        | Inr h \<Rightarrow> (
        let home = resolve_home w in
        if \<not> truthy home then
          (Exit 1, error ''HOME not set; cannot locate ~/.codex for config.toml'' w2)
        else
          let codexDir = codexDir_of w2 (String home);
              destConfigPath = destConfigPath_of w2 (String home);
              w3 = info (''ensure ~/.codex dir: '' @ codexDir) w2
          in
          case mkdirSync codexDir w3 of
            (Inl err, w4) \<Rightarrow> catch_exit ''Failed to install ~/.codex/config.toml: '' err w4
          | (Inr u, w4) \<Rightarrow>
              (case readFileSync repoConfigPath w4 of
                 (Inl err, w5) \<Rightarrow> catch_exit ''Failed to install ~/.codex/config.toml: '' err w5
               | (Inr content, w5) \<Rightarrow>
                   let w6 = info (''read repo config bytes='' @ show_nat (length content)) w5 in
                   (case writeFileSync destConfigPath content 384 w6 of
                      (Inl err, w7) \<Rightarrow> catch_exit ''Failed to install ~/.codex/config.toml: '' err w7
                    | (Inr u, w7) \<Rightarrow>
                        let w8 = snd (chmodSync destConfigPath 384 w7);
                            (st, w9) = statSafe destConfigPath w8
                        in (Return (),
                            info (''installed config to '' @ destConfigPath @ '' size=''
                                  @ show_nat (length content) @ ''B mode=''
                                  @ (case st of Some m \<Rightarrow> modeStr (Some m) | None \<Rightarrow> ''n/a'')) w9)))))"
proof -
  have pre: "os_homedir (snd (existsSync p (info m w))) = os_homedir w"
    "env (snd (existsSync p (info m w))) = env w" for p m
    by (simp_all add: existsSync_def emit_def info_def)
  show ?thesis
    by (cases "os_homedir w")
      (simp_all add: ensureConfigTomlFromRepo_def resolve_home_def home_or_env_def Let_def split_beta pre)
qed

subsection \<open>What no step changes\<close>

lemma static_emit [simp]: "static (emit e w) = static w"
  by (simp add: static_def emit_def)

lemma static_uncaught [simp]: "static (snd (uncaught e w)) = static w"
  by (simp add: uncaught_def)

lemma static_info [simp]: "static (info m w) = static w" "static (warn m w) = static w" "static (error m w) = static w"
  by (simp_all add: info_def warn_def error_def)

lemma static_fs_update [simp]: "static (w\<lparr>fs := f\<rparr>) = static w"
  by (simp add: static_def)

lemma static_existsSync [simp]: "static (snd (existsSync p w)) = static w"
  by (simp add: existsSync_def)

lemma static_mkdirSync [simp]: "static (snd (mkdirSync p w)) = static w"
  by (simp add: mkdirSync_def Let_def split: option.splits node.splits)

lemma static_readFileSync [simp]: "static (snd (readFileSync p w)) = static w"
  by (simp add: readFileSync_def Let_def split: option.splits node.splits)

lemma static_writeFileSync [simp]: "static (snd (writeFileSync p d m w)) = static w"
  by (simp add: writeFileSync_def Let_def split: option.splits node.splits)

lemma static_chmodSync [simp]: "static (snd (chmodSync p m w)) = static w"
  by (simp add: chmodSync_def Let_def split: option.splits node.splits)

lemma static_statSafe [simp]: "static (snd (statSafe p w)) = static w"
  by (simp add: statSafe_def statSync_def Let_def split: option.splits node.splits)

lemma static_catch_exit [simp]: "static (snd (catch_exit a e w)) = static w"
  by (simp add: catch_exit_def)

lemma static_runCapture [simp]: "static (snd (runCapture c a w)) = static w"
  by (simp add: runCapture_def Let_def split: option.splits)

lemma static_probe [simp]: "static (probe w) = static w"
  by (simp add: probe_def Let_def split_beta)

lemma static_ensureAuth [simp]: "static (snd (ensureAuthFromEnvIfMissing w)) = static w"
  by (simp add: ensureAuth_unfold Let_def split_beta split: sum.splits)

lemma static_ensureConfig [simp]: "static (snd (ensureConfigTomlFromRepo w)) = static w"
  by (simp add: ensureConfig_unfold Let_def split_beta split: sum.splits)

lemma static_find_candidate [simp]: "static (snd (find_candidate b ns w)) = static w"
  by (induction ns arbitrary: w) (simp_all add: Let_def split_beta)

lemma static_findLocal [simp]: "static (snd (findLocalCodexEntrypoint w)) = static w"
  by (simp add: findLocalCodexEntrypoint_def Let_def split_beta)

lemma static_verify [simp]: "static (snd (verifyLocalCodex e w)) = static w"
  by (simp add: verifyLocalCodex_def Let_def split_beta)

lemma static_provision [simp]: "static (snd (provision w)) = static w"
  by (simp add: provision_def split_beta split: result.splits)

lemma static_main [simp]: "static (snd (main w)) = static w"
  by (simp add: main_def Let_def split_beta split: result.splits option.splits)

lemma static_fields:
  assumes "static w' = static w"
  shows "os_homedir w' = os_homedir w" "env w' = env w" "cwd w' = cwd w" "platform w' = platform w"
    "execPath w' = execPath w" "version w' = version w" "arch w' = arch w" "umask w' = umask w"
    "fault w' = fault w" "spawn w' = spawn w" "torn w' = torn w"
proof -
  have "f (static w') = f (static w)" for f :: "world \<Rightarrow> 'a"
    using assms by simp
  from this[of os_homedir] this[of env] this[of cwd] this[of platform] this[of execPath]
    this[of version] this[of arch] this[of umask] this[of fault] this[of spawn] this[of torn]
  show "os_homedir w' = os_homedir w" "env w' = env w" "cwd w' = cwd w" "platform w' = platform w"
    "execPath w' = execPath w" "version w' = version w" "arch w' = arch w" "umask w' = umask w"
    "fault w' = fault w" "spawn w' = spawn w" "torn w' = torn w"
    by (simp_all add: static_def)
qed

lemma path_join_static: "platform w' = platform w \<Longrightarrow> path_join w' xs = path_join w xs"
  by (induction w xs rule: path_join.induct) (simp_all add: sep_def)

lemma static_paths:
  assumes "static w' = static w"
  shows "sep w' = sep w" "path_join w' = path_join w" "resolve_home w' = resolve_home w"
    "codexDir_of w' = codexDir_of w" "authPath_of w' = authPath_of w"
    "destConfigPath_of w' = destConfigPath_of w" "repoConfigPath_of w' = repoConfigPath_of w"
    "codexJs_of w' = codexJs_of w" "binDir_of w' = binDir_of w" "candidates w' = candidates w"
proof -
  note f = static_fields[OF assms]
  show pj: "path_join w' = path_join w"
    by (rule ext) (rule path_join_static[OF f(4)])
  show "sep w' = sep w" by (simp add: sep_def f)
  show "resolve_home w' = resolve_home w" by (simp add: resolve_home_def home_or_env_def f split: sum.splits)
  show cd: "codexDir_of w' = codexDir_of w" by (rule ext) (simp add: codexDir_of_def pj)
  show "authPath_of w' = authPath_of w" by (rule ext) (simp add: authPath_of_def pj cd)
  show "destConfigPath_of w' = destConfigPath_of w" by (rule ext) (simp add: destConfigPath_of_def pj cd)
  show "repoConfigPath_of w' = repoConfigPath_of w" by (simp add: repoConfigPath_of_def pj f)
  show "codexJs_of w' = codexJs_of w" by (simp add: codexJs_of_def pj f)
  show "binDir_of w' = binDir_of w" by (simp add: binDir_of_def pj f)
  show "candidates w' = candidates w" by (simp add: candidates_def f)
qed

lemmas static_all = static_fields static_paths

lemmas probe_static [simp] = static_all[OF static_probe]
lemmas ensureAuth_static [simp] = static_all[OF static_ensureAuth]
lemmas ensureConfig_static [simp] = static_all[OF static_ensureConfig]
lemmas findLocal_static [simp] = static_all[OF static_findLocal]
lemmas verify_static [simp] = static_all[OF static_verify]
lemmas provision_static [simp] = static_all[OF static_provision]
lemmas main_static [simp] = static_all[OF static_main]
lemmas emit_static [simp] = static_all[OF static_emit]
lemmas uncaught_static [simp] = static_all[OF static_uncaught]
lemmas info_static [simp] = static_all[OF static_info(1)] static_all[OF static_info(2)] static_all[OF static_info(3)]

lemma main_provision:
  "main w =
     (case provision w of
        (Exit c, w3) \<Rightarrow> (Exit c, w3)
      | (Return u, w3) \<Rightarrow>
          (case findLocalCodexEntrypoint w3 of
             (None, w4) \<Rightarrow>
               (Exit 1,
                error ''Could not resolve local Codex CLI. Run `npm install` to install @openai/codex.'' w4)
           | (Some e, w4) \<Rightarrow>
               (case verifyLocalCodex e w4 of
                  (Exit c, w5) \<Rightarrow> (Exit c, w5)
                | (Return u, w5) \<Rightarrow> (Return (), info ''=== END codex postinstall (local) ==='' w5))))"
  by (simp add: main_def provision_def Let_def split: prod.splits result.splits)

lemma fst_verify:
  "fst (verifyLocalCodex e w) =
     (case res_status (spawn w (command e) (args e @ [''--version''])) of
        None \<Rightarrow> Exit 1
      | Some s \<Rightarrow> if s = 0 then Return () else Exit s)"
  by (simp add: verifyLocalCodex_def runCapture_def Let_def split: option.splits)

lemmas existsSync_static [simp] = static_all[OF static_existsSync]
lemmas mkdirSync_static [simp] = static_all[OF static_mkdirSync]
lemmas readFileSync_static [simp] = static_all[OF static_readFileSync]
lemmas writeFileSync_static [simp] = static_all[OF static_writeFileSync]
lemmas chmodSync_static [simp] = static_all[OF static_chmodSync]
lemmas statSafe_static [simp] = static_all[OF static_statSafe]
lemmas catch_exit_static [simp] = static_all[OF static_catch_exit]
lemmas runCapture_static [simp] = static_all[OF static_runCapture]
lemmas find_candidate_static [simp] = static_all[OF static_find_candidate]

subsection \<open>Traces only grow\<close>

lemma ext_refl [simp]: "ext P w w"
  by (simp add: ext_def)

lemma ext_trans: "ext P w w' \<Longrightarrow> ext P w' w'' \<Longrightarrow> ext P w w''"
  by (auto simp: ext_def)

lemma ext_events: "ext P w w' \<Longrightarrow> list_all P (events w w')"
  by (auto simp: ext_def events_def)

lemma events_append: "ext P w w' \<Longrightarrow> ext Q w' w'' \<Longrightarrow> events w w'' = events w w' @ events w' w''"
  by (auto simp: ext_def events_def)

lemma events_self [simp]: "events w w = []"
  by (simp add: events_def)

lemma ext_emit: "ext P w w' \<Longrightarrow> P e \<Longrightarrow> ext P w (emit e w')"
  by (auto simp: ext_def emit_def)

lemma ext_info: "ext P w w' \<Longrightarrow> P (Log INFO m) \<Longrightarrow> ext P w (info m w')"
  by (simp add: info_def ext_emit)

lemma ext_warn: "ext P w w' \<Longrightarrow> P (Log WARN m) \<Longrightarrow> ext P w (warn m w')"
  by (simp add: warn_def ext_emit)

lemma ext_error: "ext P w w' \<Longrightarrow> P (Log ERROR m) \<Longrightarrow> ext P w (error m w')"
  by (simp add: error_def ext_emit)

lemma ext_fs_update: "ext P w w' \<Longrightarrow> ext P w (w'\<lparr>fs := f\<rparr>)"
  by (simp add: ext_def)

lemma ext_existsSync: "ext P w w' \<Longrightarrow> P (FsCall (ExistsSync p)) \<Longrightarrow> ext P w (snd (existsSync p w'))"
  by (simp add: existsSync_def ext_emit)

lemma ext_mkdirSync: "ext P w w' \<Longrightarrow> P (FsCall (MkdirSync p)) \<Longrightarrow> ext P w (snd (mkdirSync p w'))"
  by (simp add: mkdirSync_def Let_def ext_emit ext_fs_update split: option.splits node.splits)

lemma ext_readFileSync: "ext P w w' \<Longrightarrow> P (FsCall (ReadFileSync p)) \<Longrightarrow> ext P w (snd (readFileSync p w'))"
  by (simp add: readFileSync_def Let_def ext_emit split: option.splits node.splits)

lemma ext_writeFileSync:
  "ext P w w' \<Longrightarrow> P (FsCall (WriteFileSync p d m)) \<Longrightarrow> ext P w (snd (writeFileSync p d m w'))"
  by (simp add: writeFileSync_def Let_def ext_emit ext_fs_update split: option.splits node.splits)

lemma ext_chmodSync: "ext P w w' \<Longrightarrow> P (FsCall (ChmodSync p m)) \<Longrightarrow> ext P w (snd (chmodSync p m w'))"
  by (simp add: chmodSync_def Let_def ext_emit ext_fs_update split: option.splits node.splits)

lemma ext_statSafe: "ext P w w' \<Longrightarrow> P (FsCall (StatSync p)) \<Longrightarrow> ext P w (snd (statSafe p w'))"
  by (simp add: statSafe_def statSync_def Let_def ext_emit split: option.splits node.splits)

lemmas ext_intros = ext_info ext_warn ext_error ext_emit ext_existsSync ext_mkdirSync ext_readFileSync
  ext_writeFileSync ext_chmodSync ext_statSafe ext_fs_update

lemma ext_runCapture:
  assumes "ext P w w'" "\<And>e. is_output e \<Longrightarrow> P e" "P (SpawnSync c a)"
  shows "ext P w (snd (runCapture c a w'))"
  using assms by (auto simp: runCapture_def Let_def intro!: ext_intros split: option.splits)

lemma ext_probe:
  assumes "\<And>e. is_output e \<Longrightarrow> P e" "\<And>c a. P (SpawnSync c a)"
  shows "ext P w (probe w)"
  using assms by (auto simp: probe_def Let_def split_beta intro!: ext_intros ext_runCapture)

lemma ext_ifI: "(b \<Longrightarrow> ext P w x) \<Longrightarrow> (\<not> b \<Longrightarrow> ext P w y) \<Longrightarrow> ext P w (if b then x else y)"
  by simp

lemma ext_case_sumI:
  "(\<And>e. ext P w (f e)) \<Longrightarrow> (\<And>u. ext P w (g u)) \<Longrightarrow> ext P w (case s of Inl e \<Rightarrow> f e | Inr u \<Rightarrow> g u)"
  by (simp split: sum.splits)

lemma ext_case_optionI:
  "ext P w a \<Longrightarrow> (\<And>u. ext P w (g u)) \<Longrightarrow> ext P w (case s of None \<Rightarrow> a | Some u \<Rightarrow> g u)"
  by (simp split: option.splits)

lemma ext_catch_exit: "ext P w w' \<Longrightarrow> (\<And>m. P (Log ERROR m)) \<Longrightarrow> ext P w (snd (catch_exit a e w'))"
  by (simp add: catch_exit_def ext_error)

lemma ext_uncaught: "ext P w w' \<Longrightarrow> P (Uncaught e) \<Longrightarrow> ext P w (snd (uncaught e w'))"
  by (simp add: uncaught_def ext_emit)

lemmas push_snd = snd_conv if_distrib[of snd] sum.case_distrib[of snd] option.case_distrib[of snd] Let_def split_beta

lemma ext_ensureAuth:
  assumes out: "\<And>e. is_output e \<Longrightarrow> P e"
    and fsc: "\<And>c. fsop_path c = authPath_of w (String (resolve_home w)) \<or> fsop_path c = codexDir_of w (String (resolve_home w)) \<Longrightarrow> P (FsCall c)"
  shows "ext P w (snd (ensureAuthFromEnvIfMissing w))"
  unfolding ensureAuth_unfold
  apply (simp only: push_snd)
  apply (intro ext_ifI ext_case_sumI ext_case_optionI ext_catch_exit ext_uncaught ext_intros ext_refl)
  apply ((rule out, (simp; fail)) | (rule fsc, (simp; fail)))+
  done

lemma ext_ensureConfig:
  assumes out: "\<And>e. is_output e \<Longrightarrow> P e"
    and fsc: "\<And>c. fsop_path c = repoConfigPath_of w \<or> fsop_path c = destConfigPath_of w (String (resolve_home w)) \<or> fsop_path c = codexDir_of w (String (resolve_home w)) \<Longrightarrow> P (FsCall c)"
  shows "ext P w (snd (ensureConfigTomlFromRepo w))"
  unfolding ensureConfig_unfold
  apply (simp only: push_snd)
  apply (intro ext_ifI ext_case_sumI ext_case_optionI ext_catch_exit ext_uncaught ext_intros ext_refl)
  apply ((rule out, (simp; fail)) | (rule fsc, (simp; fail)))+
  done

lemma ext_find_candidate:
  assumes "\<And>e. is_output e \<Longrightarrow> P e" "\<And>p. P (FsCall (ExistsSync p))"
  shows "ext P w w' \<Longrightarrow> ext P w (snd (find_candidate b ns w'))"
proof (induction ns arbitrary: w')
  case Nil
  then show ?case by simp
next
  case (Cons n ns)
  have x: "ext P w (snd (existsSync (path_join w' [b, n]) w'))"
    by (rule ext_existsSync[OF Cons.prems]) (rule assms(2))
  show ?case
    using Cons.IH[OF x] x assms(1) by (simp add: Let_def split_beta ext_info)
qed

lemma ext_findLocal:
  assumes "\<And>e. is_output e \<Longrightarrow> P e" "\<And>p. P (FsCall (ExistsSync p))"
  shows "ext P w (snd (findLocalCodexEntrypoint w))"
  using assms by (auto simp: findLocalCodexEntrypoint_def Let_def split_beta intro!: ext_intros ext_find_candidate)

lemma ext_verify:
  assumes "\<And>e. is_output e \<Longrightarrow> P e" "P (SpawnSync (command e) (args e @ [''--version'']))"
  shows "ext P w (snd (verifyLocalCodex e w))"
  using assms by (auto simp: verifyLocalCodex_def Let_def split_beta intro!: ext_intros ext_runCapture)

subsection \<open>Paths the script never confuses\<close>

lemma last_codexDir [simp]: "last (codexDir_of w h) = CHR ''x''"
  by (simp add: codexDir_of_def)

lemma last_authPath [simp]: "last (authPath_of w h) = CHR ''n''"
  by (simp add: authPath_of_def)

lemma last_destConfigPath [simp]: "last (destConfigPath_of w h) = CHR ''l''"
  by (simp add: destConfigPath_of_def)

lemma last_repoConfigPath [simp]: "last (repoConfigPath_of w) = CHR ''l''"
  by (simp add: repoConfigPath_of_def)

lemma last_neq: "last p \<noteq> last q \<Longrightarrow> p \<noteq> q"
  by auto

lemma paths_distinct [simp]:
  "authPath_of w h \<noteq> codexDir_of w' h'" "codexDir_of w' h' \<noteq> authPath_of w h"
  "authPath_of w h \<noteq> destConfigPath_of w' h'" "destConfigPath_of w' h' \<noteq> authPath_of w h"
  "authPath_of w h \<noteq> repoConfigPath_of w'" "repoConfigPath_of w' \<noteq> authPath_of w h"
  "codexDir_of w h \<noteq> repoConfigPath_of w'" "repoConfigPath_of w' \<noteq> codexDir_of w h"
  "codexDir_of w h \<noteq> destConfigPath_of w' h'" "destConfigPath_of w' h' \<noteq> codexDir_of w h"
  by (rule last_neq, simp)+

subsection \<open>Nodes a step leaves alone\<close>

lemma keeps_refl [simp]: "keeps p w w"
  by (simp add: keeps_def)

lemma keeps_trans: "keeps p w w' \<Longrightarrow> keeps p w' w'' \<Longrightarrow> keeps p w w''"
  by (simp add: keeps_def)

lemma keeps_emit: "keeps p w w' \<Longrightarrow> keeps p w (emit e w')"
  by (simp add: keeps_def emit_def)

lemma keeps_info: "keeps p w w' \<Longrightarrow> keeps p w (info m w')"
  by (simp add: info_def keeps_emit)

lemma keeps_warn: "keeps p w w' \<Longrightarrow> keeps p w (warn m w')"
  by (simp add: warn_def keeps_emit)

lemma keeps_error: "keeps p w w' \<Longrightarrow> keeps p w (error m w')"
  by (simp add: error_def keeps_emit)

lemma keeps_existsSync: "keeps p w w' \<Longrightarrow> keeps p w (snd (existsSync q w'))"
  by (simp add: existsSync_def keeps_emit)

lemma keeps_mkdirSync: "keeps p w w' \<Longrightarrow> q \<noteq> p \<Longrightarrow> keeps p w (snd (mkdirSync q w'))"
  by (simp add: mkdirSync_def Let_def keeps_def emit_def split: option.splits node.splits)

lemma keeps_readFileSync: "keeps p w w' \<Longrightarrow> keeps p w (snd (readFileSync q w'))"
  by (simp add: readFileSync_def Let_def keeps_def emit_def split: option.splits node.splits)

lemma keeps_writeFileSync: "keeps p w w' \<Longrightarrow> q \<noteq> p \<Longrightarrow> keeps p w (snd (writeFileSync q d m w'))"
  by (simp add: writeFileSync_def written_def Let_def keeps_def emit_def split: option.splits node.splits)

lemma keeps_chmodSync: "keeps p w w' \<Longrightarrow> q \<noteq> p \<Longrightarrow> keeps p w (snd (chmodSync q m w'))"
  by (simp add: chmodSync_def Let_def keeps_def emit_def split: option.splits node.splits)

lemma keeps_statSafe: "keeps p w w' \<Longrightarrow> keeps p w (snd (statSafe q w'))"
  by (simp add: statSafe_def statSync_def Let_def keeps_def emit_def split: option.splits node.splits)

lemma keeps_catch_exit: "keeps p w w' \<Longrightarrow> keeps p w (snd (catch_exit a e w'))"
  by (simp add: catch_exit_def keeps_error)

lemma keeps_uncaught: "keeps p w w' \<Longrightarrow> keeps p w (snd (uncaught e w'))"
  by (simp add: uncaught_def keeps_emit)

lemma keeps_ifI: "(b \<Longrightarrow> keeps p w x) \<Longrightarrow> (\<not> b \<Longrightarrow> keeps p w y) \<Longrightarrow> keeps p w (if b then x else y)"
  by simp

lemma keeps_case_sumI:
  "(\<And>e. keeps p w (f e)) \<Longrightarrow> (\<And>u. keeps p w (g u)) \<Longrightarrow> keeps p w (case s of Inl e \<Rightarrow> f e | Inr u \<Rightarrow> g u)"
  by (simp split: sum.splits)

lemma keeps_case_optionI:
  "keeps p w a \<Longrightarrow> (\<And>u. keeps p w (g u)) \<Longrightarrow> keeps p w (case s of None \<Rightarrow> a | Some u \<Rightarrow> g u)"
  by (simp split: option.splits)

lemmas keeps_intros = keeps_ifI keeps_case_sumI keeps_case_optionI keeps_info keeps_warn keeps_error
  keeps_emit keeps_existsSync keeps_mkdirSync keeps_readFileSync keeps_writeFileSync keeps_chmodSync
  keeps_statSafe keeps_catch_exit keeps_uncaught keeps_refl

lemma keeps_runCapture: "keeps p w w' \<Longrightarrow> keeps p w (snd (runCapture c a w'))"
  unfolding runCapture_def
  by (simp only: push_snd) (intro keeps_intros)

lemma keeps_probe: "keeps p w (probe w)"
  unfolding probe_def
  by (simp only: push_snd) (intro keeps_intros keeps_runCapture)

lemma keeps_ensureAuth:
  assumes "p \<noteq> authPath_of w (String (resolve_home w))" "p \<noteq> codexDir_of w (String (resolve_home w))"
  shows "keeps p w (snd (ensureAuthFromEnvIfMissing w))"
  unfolding ensureAuth_unfold
  apply (simp only: push_snd)
  apply (intro keeps_intros)
  using assms apply (simp; fail)+
  done

lemma keeps_ensureConfig:
  assumes "p \<noteq> destConfigPath_of w (String (resolve_home w))" "p \<noteq> codexDir_of w (String (resolve_home w))"
  shows "keeps p w (snd (ensureConfigTomlFromRepo w))"
  unfolding ensureConfig_unfold
  apply (simp only: push_snd)
  apply (intro keeps_intros)
  using assms apply (simp; fail)+
  done

lemma keeps_find_candidate: "keeps p w w' \<Longrightarrow> keeps p w (snd (find_candidate b ns w'))"
proof (induction ns arbitrary: w')
  case Nil
  then show ?case by simp
next
  case (Cons n ns)
  have x: "keeps p w (snd (existsSync (path_join w' [b, n]) w'))"
    by (rule keeps_existsSync[OF Cons.prems])
  show ?case
    using Cons.IH[OF x] x by (simp add: Let_def split_beta keeps_info)
qed

lemma keeps_findLocal: "keeps p w (snd (findLocalCodexEntrypoint w))"
  unfolding findLocalCodexEntrypoint_def
  by (simp only: push_snd) (intro keeps_intros keeps_find_candidate)

lemma keeps_verify: "keeps p w (snd (verifyLocalCodex e w))"
  unfolding verifyLocalCodex_def
  by (simp only: push_snd) (intro keeps_intros keeps_runCapture)

lemma fs_probe [simp]: "fs (probe w) = fs w"
  using keeps_probe by (auto simp: keeps_def)

lemma fs_findLocal [simp]: "fs (snd (findLocalCodexEntrypoint w)) = fs w"
  using keeps_findLocal by (auto simp: keeps_def)

lemma fs_verify [simp]: "fs (snd (verifyLocalCodex e w)) = fs w"
  using keeps_verify by (auto simp: keeps_def)

subsection \<open>The steps of main, one after the other\<close>

lemma fst_provision:
  "fst (provision w) =
     (case fst (ensureAuthFromEnvIfMissing (probe w)) of
        Exit c \<Rightarrow> Exit c
      | Return u \<Rightarrow> fst (ensureConfigTomlFromRepo (snd (ensureAuthFromEnvIfMissing (probe w)))))"
  by (simp add: provision_def split_beta split: result.splits)

lemma snd_provision:
  "snd (provision w) =
     (case fst (ensureAuthFromEnvIfMissing (probe w)) of
        Exit c \<Rightarrow> snd (ensureAuthFromEnvIfMissing (probe w))
      | Return u \<Rightarrow> snd (ensureConfigTomlFromRepo (snd (ensureAuthFromEnvIfMissing (probe w)))))"
  by (simp add: provision_def split_beta split: result.splits)

lemma fst_main:
  "fst (main w) =
     (case fst (provision w) of
        Exit c \<Rightarrow> Exit c
      | Return u \<Rightarrow>
          (case fst (findLocalCodexEntrypoint (snd (provision w))) of
             None \<Rightarrow> Exit 1
           | Some e \<Rightarrow>
               (case fst (verifyLocalCodex e (snd (findLocalCodexEntrypoint (snd (provision w))))) of
                  Exit c \<Rightarrow> Exit c
                | Return u \<Rightarrow> Return ())))"
  by (simp add: main_provision split_beta split: result.splits option.splits)

lemma snd_main:
  "snd (main w) =
     (case fst (provision w) of
        Exit c \<Rightarrow> snd (provision w)
      | Return u \<Rightarrow>
          (case fst (findLocalCodexEntrypoint (snd (provision w))) of
             None \<Rightarrow>
               error ''Could not resolve local Codex CLI. Run `npm install` to install @openai/codex.''
                 (snd (findLocalCodexEntrypoint (snd (provision w))))
           | Some e \<Rightarrow>
               (case fst (verifyLocalCodex e (snd (findLocalCodexEntrypoint (snd (provision w))))) of
                  Exit c \<Rightarrow> snd (verifyLocalCodex e (snd (findLocalCodexEntrypoint (snd (provision w)))))
                | Return u \<Rightarrow>
                    info ''=== END codex postinstall (local) ===''
                      (snd (verifyLocalCodex e (snd (findLocalCodexEntrypoint (snd (provision w)))))))))"
  by (simp add: main_provision split_beta split: result.splits option.splits)

text \<open>A relation between worlds that every step of a run respects holds between the
  start and the end of the run.\<close>

lemma provision_rel:
  assumes tr: "\<And>a b c. R a b \<Longrightarrow> R b c \<Longrightarrow> R a c"
    and p: "R w (probe w)"
    and a: "R (probe w) (snd (ensureAuthFromEnvIfMissing (probe w)))"
    and c: "fst (ensureAuthFromEnvIfMissing (probe w)) = Return () \<Longrightarrow>
              R (snd (ensureAuthFromEnvIfMissing (probe w)))
                (snd (ensureConfigTomlFromRepo (snd (ensureAuthFromEnvIfMissing (probe w)))))"
  shows "R w (snd (provision w))"
proof (cases "fst (ensureAuthFromEnvIfMissing (probe w))")
  case (Exit x)
  then show ?thesis using tr[OF p a] by (simp add: snd_provision)
next
  case (Return u)
  then show ?thesis using tr[OF tr[OF p a] c] by (simp add: snd_provision)
qed

lemma main_rel:
  assumes tr: "\<And>a b c. R a b \<Longrightarrow> R b c \<Longrightarrow> R a c"
    and p: "R w (snd (provision w))"
    and f: "R (snd (provision w)) (snd (findLocalCodexEntrypoint (snd (provision w))))"
    and v: "\<And>e. R (snd (findLocalCodexEntrypoint (snd (provision w))))
                  (snd (verifyLocalCodex e (snd (findLocalCodexEntrypoint (snd (provision w))))))"
    and l: "\<And>l m w'. R w' (emit (Log l m) w')"
  shows "R w (snd (main w))"
proof (cases "fst (provision w)")
  case (Exit x)
  then show ?thesis using p by (simp add: snd_main)
next
  case (Return u)
  note r = this
  show ?thesis
  proof (cases "fst (findLocalCodexEntrypoint (snd (provision w)))")
    case None
    then show ?thesis
      using r tr[OF tr[OF p f] l] by (simp add: snd_main error_def)
  next
    case (Some e)
    then show ?thesis
      using r tr[OF tr[OF p f] v[of e]] tr[OF tr[OF tr[OF p f] v[of e]] l]
      by (simp add: snd_main info_def split: result.splits)
  qed
qed

lemma fst_ensureAuth_exit: "fst (ensureAuthFromEnvIfMissing w) = Exit c \<Longrightarrow> c = 1"
  by (simp add: ensureAuth_unfold Let_def split_beta catch_exit_def uncaught_def split: if_splits sum.splits)

lemma fst_ensureConfig_exit: "fst (ensureConfigTomlFromRepo w) = Exit c \<Longrightarrow> c = 1 \<or> c = 2"
  by (simp add: ensureConfig_unfold Let_def split_beta catch_exit_def uncaught_def split: if_splits sum.splits)

subsection \<open>The branches of the two provisioning steps\<close>

lemma trace_emit [simp]: "trace (emit e w) = trace w @ [e]"
  by (simp add: emit_def)

lemma trace_log [simp]:
  "trace (info m w) = trace w @ [Log INFO m]"
  "trace (warn m w) = trace w @ [Log WARN m]"
  "trace (error m w) = trace w @ [Log ERROR m]"
  by (simp_all add: info_def warn_def error_def)

lemma fs_emit [simp]: "fs (emit e w) = fs w"
  by (simp add: emit_def)

lemma fs_log [simp]: "fs (info m w) = fs w" "fs (warn m w) = fs w" "fs (error m w) = fs w"
  by (simp_all add: info_def warn_def error_def)

lemma auth_throws: "os_homedir w = Inl e \<Longrightarrow> ensureAuthFromEnvIfMissing w = (Exit 1, emit (Uncaught e) w)"
  by (simp add: ensureAuth_unfold uncaught_def)

lemma auth_nohome:
  "os_homedir w = Inr h \<Longrightarrow> \<not> truthy (resolve_home w) \<Longrightarrow>
   ensureAuthFromEnvIfMissing w =
     (Return (), warn ''Could not resolve home directory; skip ~/.codex/auth.json bootstrap'' w)"
  by (simp add: ensureAuth_unfold)

lemma auth_exists:
  "truthy (resolve_home w) \<Longrightarrow> fs w (authPath_of w (String (resolve_home w))) \<noteq> None \<Longrightarrow>
   ensureAuthFromEnvIfMissing w =
     (Return (),
      info (''auth path: '' @ authPath_of w (String (resolve_home w)) @ '' exists=true'')
        (emit (FsCall (ExistsSync (authPath_of w (String (resolve_home w))))) w))"
  using truthy_home_returns[of w]
  by (auto simp add: ensureAuth_unfold Let_def existsSync_def show_bool_def)


lemma config_absent:
  "fs w (repoConfigPath_of w) = None \<Longrightarrow>
   ensureConfigTomlFromRepo w =
     (Exit 2,
      error ''::error::.codex/config.toml not found in repo; aborting per fail-fast policy''
        (emit (FsCall (ExistsSync (repoConfigPath_of w)))
          (info (''repo config candidate: '' @ repoConfigPath_of w) w)))"
  by (simp add: ensureConfig_unfold Let_def existsSync_def)

lemma config_throws:
  "fs w (repoConfigPath_of w) \<noteq> None \<Longrightarrow> os_homedir w = Inl e \<Longrightarrow>
   ensureConfigTomlFromRepo w =
     (Exit 1,
      emit (Uncaught e)
        (emit (FsCall (ExistsSync (repoConfigPath_of w)))
          (info (''repo config candidate: '' @ repoConfigPath_of w) w)))"
  by (simp add: ensureConfig_unfold Let_def existsSync_def uncaught_def)

lemma config_nohome:
  "fs w (repoConfigPath_of w) \<noteq> None \<Longrightarrow> os_homedir w = Inr h \<Longrightarrow> \<not> truthy (resolve_home w) \<Longrightarrow>
   ensureConfigTomlFromRepo w =
     (Exit 1,
      error ''HOME not set; cannot locate ~/.codex for config.toml''
        (emit (FsCall (ExistsSync (repoConfigPath_of w)))
          (info (''repo config candidate: '' @ repoConfigPath_of w) w)))"
  by (simp add: ensureConfig_unfold Let_def existsSync_def)

subsection \<open>Every step only adds to the trace\<close>

lemma grows_probe: "ext (\<lambda>e. True) w (probe w)"
  by (rule ext_probe) simp_all

lemma grows_ensureAuth: "ext (\<lambda>e. True) w (snd (ensureAuthFromEnvIfMissing w))"
  by (rule ext_ensureAuth) simp_all

lemma grows_ensureConfig: "ext (\<lambda>e. True) w (snd (ensureConfigTomlFromRepo w))"
  by (rule ext_ensureConfig) simp_all

lemma grows_findLocal: "ext (\<lambda>e. True) w (snd (findLocalCodexEntrypoint w))"
  by (rule ext_findLocal) simp_all

lemma grows_verify: "ext (\<lambda>e. True) w (snd (verifyLocalCodex e w))"
  by (rule ext_verify) simp_all

lemma provision_tail_rel:
  assumes rf: "\<And>a. R a a"
    and c: "fst (ensureAuthFromEnvIfMissing (probe w)) = Return () \<Longrightarrow>
              R (snd (ensureAuthFromEnvIfMissing (probe w)))
                (snd (ensureConfigTomlFromRepo (snd (ensureAuthFromEnvIfMissing (probe w)))))"
  shows "R (snd (ensureAuthFromEnvIfMissing (probe w))) (snd (provision w))"
  using rf c by (cases "fst (ensureAuthFromEnvIfMissing (probe w))") (simp_all add: snd_provision)

lemma main_tail_rel:
  assumes tr: "\<And>a b c. R a b \<Longrightarrow> R b c \<Longrightarrow> R a c"
    and rf: "\<And>a. R a a"
    and f: "R (snd (provision w)) (snd (findLocalCodexEntrypoint (snd (provision w))))"
    and v: "\<And>e. R (snd (findLocalCodexEntrypoint (snd (provision w))))
                  (snd (verifyLocalCodex e (snd (findLocalCodexEntrypoint (snd (provision w))))))"
    and l: "\<And>l m w'. R w' (emit (Log l m) w')"
  shows "R (snd (provision w)) (snd (main w))"
proof (cases "fst (provision w)")
  case (Exit x)
  then show ?thesis using rf by (simp add: snd_main)
next
  case (Return u)
  note r = this
  show ?thesis
  proof (cases "fst (findLocalCodexEntrypoint (snd (provision w)))")
    case None
    then show ?thesis
      using r tr[OF f l] by (simp add: snd_main error_def)
  next
    case (Some e)
    then show ?thesis
      using r tr[OF f v[of e]] tr[OF tr[OF f v[of e]] l]
      by (simp add: snd_main info_def split: result.splits)
  qed
qed

lemma grows_provision_tail: "ext (\<lambda>e. True) (snd (ensureAuthFromEnvIfMissing (probe w))) (snd (provision w))"
  by (rule provision_tail_rel[where R = "ext (\<lambda>e. True)"]) (simp_all add: grows_ensureConfig)

lemma grows_main_tail: "ext (\<lambda>e. True) (snd (provision w)) (snd (main w))"
proof (rule main_tail_rel[where R = "ext (\<lambda>e. True)"])
  show "ext (\<lambda>e. True) a c" if "ext (\<lambda>e. True) a b" "ext (\<lambda>e. True) b c" for a b c
    using that by (rule ext_trans)
  show "ext (\<lambda>e. True) w' (emit (Log l m) w')" for l m w'
    by (rule ext_emit) simp_all
qed (simp_all add: grows_findLocal grows_verify)

lemma grows_after_auth: "ext (\<lambda>e. True) (snd (ensureAuthFromEnvIfMissing (probe w))) (snd (main w))"
  by (rule ext_trans[OF grows_provision_tail grows_main_tail])

lemma grows_after_probe: "ext (\<lambda>e. True) (probe w) (snd (main w))"
  by (rule ext_trans[OF grows_ensureAuth grows_after_auth])

lemma events_later: "ext P w w' \<Longrightarrow> ext Q w' w'' \<Longrightarrow> e \<in> set (events w' w'') \<Longrightarrow> e \<in> set (events w w'')"
  using events_append[of P w w' Q w''] by simp

lemma events_earlier: "ext P w w' \<Longrightarrow> ext Q w' w'' \<Longrightarrow> e \<in> set (events w w') \<Longrightarrow> e \<in> set (events w w'')"
  using events_append[of P w w' Q w''] by simp

text \<open>The first thing each provisioning step does.\<close>

lemma auth_starts:
  "\<exists>es. trace (snd (ensureAuthFromEnvIfMissing w)) =
     trace w @
       (case os_homedir w of
          Inl thrown \<Rightarrow> Uncaught thrown
        | Inr h \<Rightarrow>
            if truthy (resolve_home w) then FsCall (ExistsSync (authPath_of w (String (resolve_home w))))
            else Log WARN ''Could not resolve home directory; skip ~/.codex/auth.json bootstrap'') # es"
proof (cases "os_homedir w")
  case (Inl e)
  then show ?thesis by (simp add: auth_throws)
next
  case (Inr h)
  note ret = this
  show ?thesis
  proof (cases "truthy (resolve_home w)")
    case False
    then show ?thesis using ret by (simp add: auth_nohome[OF ret])
  next
    case True
    let ?a = "authPath_of w (String (resolve_home w))"
    let ?w1 = "snd (existsSync ?a w)"
    have "ext (\<lambda>e. True) ?w1 (snd (ensureAuthFromEnvIfMissing w))"
      unfolding ensureAuth_unfold
      apply (simp only: push_snd True not_True_eq_False if_False ret sum.case)
      apply (intro ext_refl ext_ifI ext_case_sumI ext_case_optionI ext_catch_exit ext_intros)
      apply simp_all
      done
    then obtain es where "trace (snd (ensureAuthFromEnvIfMissing w)) = trace ?w1 @ es"
      by (auto simp: ext_def)
    then show ?thesis using True ret by (simp add: existsSync_def)
  qed
qed


lemma events_main_split:
  "events w (snd (main w)) =
     events w (probe w)
     @ events (probe w) (snd (ensureAuthFromEnvIfMissing (probe w)))
     @ events (snd (ensureAuthFromEnvIfMissing (probe w))) (snd (main w))"
  using events_append[OF grows_probe grows_after_probe, of w]
    events_append[OF grows_ensureAuth grows_after_auth, of w]
  by simp


subsection \<open>The probe\<close>

lemma filter_none: "list_all (\<lambda>e. \<not> P e) xs \<Longrightarrow> filter P xs = []"
  by (induction xs) auto

lemma ok_runCapture: "ok (fst (runCapture c a w)) = (res_status (spawn w c a) = Some 0)"
  by (simp add: runCapture_def Let_def)

lemma runCapture_error_logged:
  assumes "res_error (spawn w c a) = Some e"
  shows "Log ERROR (''spawn error: '' @ (if message e \<noteq> [] then message e else error_toString e))
           \<in> set (events w (snd (runCapture c a w)))"
  using assms by (simp add: runCapture_def Let_def events_def)

lemma probe_last:
  "\<exists>es. events w (probe w) =
     es @ [Log INFO (''node resolved ok='' @
        show_bool (res_status (spawn w (if platform w = ''win32'' then ''where'' else ''which'') [''node'']) = Some 0))]"
proof -
  let ?c = "if platform w = ''win32'' then ''where'' else ''which''"
  define w4 where "w4 = info (''PATH: '' @ String (env w ''PATH''))
     (info (''cwd: '' @ cwd w)
       (info (''node: '' @ version w @ '' platform: '' @ platform w @ '' arch: '' @ arch w)
         (info ''=== BEGIN codex postinstall (local) ==='' w)))"
  have p: "probe w = info (''node resolved ok='' @ show_bool (ok (fst (runCapture ?c [''node''] w4))))
      (snd (runCapture ?c [''node''] w4))"
    by (simp add: probe_def Let_def split_beta w4_def)
  have "ext (\<lambda>e. True) w w4"
    unfolding w4_def by (intro ext_intros ext_refl) simp_all
  then have "ext (\<lambda>e. True) w (snd (runCapture ?c [''node''] w4))"
    by (rule ext_runCapture) simp_all
  then obtain es where "trace (snd (runCapture ?c [''node''] w4)) = trace w @ es"
    by (auto simp: ext_def)
  moreover have "spawn w4 = spawn w" by (simp add: w4_def)
  ultimately show ?thesis
    by (simp add: p ok_runCapture events_def)
qed

lemma probe_error_logged:
  assumes "res_error (spawn w (if platform w = ''win32'' then ''where'' else ''which'') [''node'']) = Some e"
  shows "Log ERROR (''spawn error: '' @ (if message e \<noteq> [] then message e else error_toString e))
           \<in> set (events w (probe w))"
proof -
  let ?c = "if platform w = ''win32'' then ''where'' else ''which''"
  define w4 where "w4 = info (''PATH: '' @ String (env w ''PATH''))
     (info (''cwd: '' @ cwd w)
       (info (''node: '' @ version w @ '' platform: '' @ platform w @ '' arch: '' @ arch w)
         (info ''=== BEGIN codex postinstall (local) ==='' w)))"
  have p: "probe w = info (''node resolved ok='' @ show_bool (ok (fst (runCapture ?c [''node''] w4))))
      (snd (runCapture ?c [''node''] w4))"
    by (simp add: probe_def Let_def split_beta w4_def)
  have g1: "ext (\<lambda>e. True) w w4"
    unfolding w4_def by (intro ext_intros ext_refl) simp_all
  have g2: "ext (\<lambda>e. True) w4 (snd (runCapture ?c [''node''] w4))"
    by (rule ext_runCapture) simp_all
  have g3: "ext (\<lambda>e. True) (snd (runCapture ?c [''node''] w4)) (probe w)"
    unfolding p by (intro ext_intros ext_refl) simp_all
  have "res_error (spawn w4 ?c [''node'']) = Some e"
    using assms by (simp add: w4_def)
  from runCapture_error_logged[OF this]
  have "Log ERROR (''spawn error: '' @ (if message e \<noteq> [] then message e else error_toString e))
           \<in> set (events w4 (snd (runCapture ?c [''node''] w4)))" .
  then have "Log ERROR (''spawn error: '' @ (if message e \<noteq> [] then message e else error_toString e))
           \<in> set (events w (snd (runCapture ?c [''node''] w4)))"
    by (rule events_later[OF g1 g2])
  then show ?thesis
    by (rule events_earlier[OF ext_trans[OF g1 g2] g3])
qed

lemma probe_no_write: "filter is_write (events w (probe w)) = []"
proof -
  have "ext (\<lambda>e. \<not> is_write e) w (probe w)"
  proof (rule ext_probe)
    show "\<not> is_write e" if "is_output e" for e using that by (cases e) simp_all
  qed simp
  then show ?thesis by (intro filter_none ext_events)
qed

subsection \<open>Calls that open a path\<close>

lemma opens_path: "opens p (FsCall c) \<Longrightarrow> fsop_path c = p"
  by (cases c) simp_all

lemma output_not_opens: "is_output e \<Longrightarrow> \<not> opens p e"
  by (cases e) simp_all



subsection \<open>The credential step when there is nothing to write\<close>


lemma static_due:
  assumes "static w' = static w" and "fs w' = fs w"
  shows "credential_due w' = credential_due w"
  by (simp add: credential_due_def secret_given_def static_all[OF assms(1)] assms(2))




subsection \<open>The credential step when there is something to write\<close>

lemma due_unfold:
  "credential_due w \<Longrightarrow> env w ''CODEX_AUTH_JSON'' = Some v \<Longrightarrow>
   truthy (resolve_home w) \<and> fs w (authPath_of w (String (resolve_home w))) = None
   \<and> truthy (Some v) \<and> trim v \<noteq> []"
  by (auto simp: credential_due_def secret_given_def String_def)

lemma fs_statSafe [simp]: "fs (snd (statSafe p w)) = fs w"
  by (simp add: statSafe_def statSync_def Let_def emit_def split: option.splits node.splits)

lemma fs_catch_exit [simp]: "fs (snd (catch_exit a e w)) = fs w"
  by (simp add: catch_exit_def)

lemma fst_catch_exit [simp]: "fst (catch_exit a e w) = Exit 1"
  by (simp add: catch_exit_def)

lemma fst_mkdirSync:
  "fst (mkdirSync p w) =
     (case fault w (MkdirSync p) of
        Some e \<Rightarrow> Inl e
      | None \<Rightarrow> (case fs w p of Some (File c m) \<Rightarrow> Inl (sys_error ''EEXIST'' ''mkdir'' p) | Some (Dir m) \<Rightarrow> Inr () | None \<Rightarrow> Inr ()))"
  by (simp add: mkdirSync_def Let_def split: option.splits node.splits)

lemma fs_mkdirSync:
  "fs (snd (mkdirSync p w)) =
     (if fault w (MkdirSync p) = None \<and> fs w p = None then (fs w)(p \<mapsto> Dir (511 AND NOT (umask w))) else fs w)"
  by (simp add: mkdirSync_def Let_def emit_def split: option.splits node.splits)

lemma fst_writeFileSync:
  "fst (writeFileSync p d m w) =
     (case fault w (WriteFileSync p d m) of
        Some e \<Rightarrow> Inl e
      | None \<Rightarrow> (case fs w p of Some (Dir m') \<Rightarrow> Inl (sys_error ''EISDIR'' ''open'' p) | Some (File c m') \<Rightarrow> Inr () | None \<Rightarrow> Inr ()))"
  by (simp add: writeFileSync_def Let_def split: option.splits node.splits)

lemma fs_writeFileSync:
  "fs (snd (writeFileSync p d m w)) =
     (case fault w (WriteFileSync p d m) of
        Some e \<Rightarrow> (case torn w (WriteFileSync p d m) of None \<Rightarrow> fs w | Some n \<Rightarrow> written w p (take n d) m)
      | None \<Rightarrow> written w p d m)"
  by (simp add: writeFileSync_def written_def Let_def emit_def split: option.splits node.splits)

lemma fs_chmodSync:
  "fs (snd (chmodSync p m w)) =
     (case fault w (ChmodSync p m) of
        Some e \<Rightarrow> fs w
      | None \<Rightarrow> (case fs w p of Some (File c m') \<Rightarrow> (fs w)(p \<mapsto> File c m) | Some (Dir m') \<Rightarrow> (fs w)(p \<mapsto> Dir m)
                  | None \<Rightarrow> fs w))"
  by (simp add: chmodSync_def Let_def emit_def split: option.splits node.splits)

lemma fst_readFileSync:
  "fst (readFileSync p w) =
     (case fault w (ReadFileSync p) of
        Some e \<Rightarrow> Inl e
      | None \<Rightarrow> (case fs w p of Some (File c m) \<Rightarrow> Inr c | Some (Dir m) \<Rightarrow> Inl (sys_error ''EISDIR'' ''read'' p)
                  | None \<Rightarrow> Inl (sys_error ''ENOENT'' ''open'' p)))"
  by (simp add: readFileSync_def Let_def split: option.splits node.splits)

lemma fs_readFileSync [simp]: "fs (snd (readFileSync p w)) = fs w"
  by (simp add: readFileSync_def Let_def emit_def split: option.splits node.splits)

lemma fs_existsSync [simp]: "fs (snd (existsSync p w)) = fs w"
  by (simp add: existsSync_def)

lemma fst_existsSync [simp]: "fst (existsSync p w) = (fs w p \<noteq> None)"
  by (simp add: existsSync_def)

lemmas fs_ops = fst_mkdirSync fs_mkdirSync fst_writeFileSync fs_writeFileSync fs_chmodSync fst_readFileSync

lemma auth_due_written:
  assumes due: "credential_due w" and v: "env w ''CODEX_AUTH_JSON'' = Some v"
    and mk: "fault w (MkdirSync (codexDir_of w (String (resolve_home w)))) = None"
    and nf: "read_content w (codexDir_of w (String (resolve_home w))) = None"
    and wr: "fault w (WriteFileSync (authPath_of w (String (resolve_home w))) (utf8 v) 384) = None"
  shows "fst (ensureAuthFromEnvIfMissing w) = Return ()
       \<and> fs (snd (ensureAuthFromEnvIfMissing w)) =
           (fs w)(codexDir_of w (String (resolve_home w)) \<mapsto>
                    (case fs w (codexDir_of w (String (resolve_home w))) of
                       None \<Rightarrow> Dir (511 AND NOT (umask w)) | Some n \<Rightarrow> n),
                  authPath_of w (String (resolve_home w)) \<mapsto>
                    File (utf8 v) (if fault w (ChmodSync (authPath_of w (String (resolve_home w))) 384) = None
                            then 384 else 384 AND NOT (umask w)))"
proof -
  have sv: "String (Some v) = v" by (simp add: String_def)
  have nf': "fs w (codexDir_of w (String (resolve_home w))) = None
      \<or> (\<exists>m. fs w (codexDir_of w (String (resolve_home w))) = Some (Dir m))"
    using nf by (auto simp: read_content_def split: option.splits node.splits)
  from due_unfold[OF due v] obtain h where h: "os_homedir w = Inr h"
    using truthy_home_returns[of w] by blast
  show ?thesis
    using due_unfold[OF due v] v mk wr nf' h
    by (auto simp: ensureAuth_unfold Let_def split_beta show_bool_def sv fs_ops written_def map_upd_triv)
qed

lemma auth_due_failed:
  assumes due: "credential_due w" and v: "env w ''CODEX_AUTH_JSON'' = Some v"
    and bad: "\<not> (fault w (MkdirSync (codexDir_of w (String (resolve_home w)))) = None
        \<and> read_content w (codexDir_of w (String (resolve_home w))) = None
        \<and> fault w (WriteFileSync (authPath_of w (String (resolve_home w))) (utf8 v) 384) = None)"
  shows "fst (ensureAuthFromEnvIfMissing w) = Exit 1
       \<and> fs (snd (ensureAuthFromEnvIfMissing w)) (authPath_of w (String (resolve_home w))) =
           (if fault w (MkdirSync (codexDir_of w (String (resolve_home w)))) = None
               \<and> read_content w (codexDir_of w (String (resolve_home w))) = None
            then (case torn w (WriteFileSync (authPath_of w (String (resolve_home w))) (utf8 v) 384) of
                    None \<Rightarrow> None
                  | Some n \<Rightarrow> Some (File (take n (utf8 v)) (384 AND NOT (umask w))))
            else None)"
proof -
  have sv: "String (Some v) = v" by (simp add: String_def)
  from due_unfold[OF due v] obtain h where h: "os_homedir w = Inr h"
    using truthy_home_returns[of w] by blast
  show ?thesis
    using due_unfold[OF due v] v bad h
    by (auto simp: ensureAuth_unfold Let_def split_beta show_bool_def sv fs_ops read_content_def written_def
        split: option.splits node.splits)
qed

lemma mode_survives_umask: "(u::int) AND 384 = 0 \<Longrightarrow> 384 AND NOT u = 384"
proof (rule bit_eqI)
  fix n
  assume "u AND 384 = 0"
  then have "bit (u AND 384) n = bit (0::int) n" by simp
  then have "\<not> (bit u n \<and> bit (384::int) n)" by (simp add: bit_and_iff)
  then show "bit (384 AND NOT u) n = bit (384::int) n"
    by (auto simp: bit_and_iff bit_not_iff)
qed

lemma keeps_after_auth:
  assumes "p \<noteq> destConfigPath_of w (String (resolve_home w))" "p \<noteq> codexDir_of w (String (resolve_home w))"
  shows "keeps p (snd (ensureAuthFromEnvIfMissing (probe w))) (snd (main w))"
proof -
  let ?w2 = "snd (ensureAuthFromEnvIfMissing (probe w))"
  have c: "keeps p ?w2 (snd (ensureConfigTomlFromRepo ?w2))"
    by (rule keeps_ensureConfig) (simp_all add: assms)
  have t1: "keeps p ?w2 (snd (provision w))"
    by (rule provision_tail_rel[where R = "keeps p"]) (simp_all add: c)
  have t2: "keeps p (snd (provision w)) (snd (main w))"
    by (rule main_tail_rel[where R = "keeps p"])
      (auto intro: keeps_trans keeps_findLocal keeps_verify keeps_emit)
  show ?thesis by (rule keeps_trans[OF t1 t2])
qed

subsection \<open>The configuration step when it succeeds\<close>

lemma config_needs_repo:
  assumes "fst (ensureConfigTomlFromRepo w) = Return ()"
  shows "fs w (repoConfigPath_of w) \<noteq> None" and "truthy (resolve_home w)"
proof -
  show 1: "fs w (repoConfigPath_of w) \<noteq> None"
  proof (rule notI)
    assume "fs w (repoConfigPath_of w) = None"
    from config_absent[OF this] have "fst (ensureConfigTomlFromRepo w) = Exit 2" by simp
    with assms show False by simp
  qed
  show "truthy (resolve_home w)"
  proof (cases "os_homedir w")
    case (Inl e)
    from config_throws[OF 1 this] have "fst (ensureConfigTomlFromRepo w) = Exit 1" by simp
    with assms show ?thesis by simp
  next
    case (Inr h)
    show ?thesis
    proof (rule ccontr)
      assume "\<not> truthy (resolve_home w)"
      from config_nohome[OF 1 Inr this] have "fst (ensureConfigTomlFromRepo w) = Exit 1" by simp
      with assms show False by simp
    qed
  qed
qed

text \<open>The configuration step returns exactly when the copy goes through.\<close>

lemma config_returns_then:
  assumes ret: "fst (ensureConfigTomlFromRepo w) = Return ()"
  shows "copy_goes_through w"
proof -
  let ?d = "codexDir_of w (String (resolve_home w))"
  let ?r = "repoConfigPath_of w"
  let ?t = "destConfigPath_of w (String (resolve_home w))"
  obtain h where h: "os_homedir w = Inr h"
    using truthy_home_returns[OF config_needs_repo(2)[OF ret]] by blast
  note n = config_needs_repo[OF ret] h
  note defs = ensureConfig_unfold Let_def split_beta fs_ops
  \<comment> \<open>creating the directory did not fail\<close>
  have mk: "fault w (MkdirSync ?d) = None"
  proof (cases "fault w (MkdirSync ?d)")
    case (Some e)
    with n have "fst (ensureConfigTomlFromRepo w) = Exit 1" by (simp add: defs)
    with ret show ?thesis by simp
  qed
  have dir: "fs w ?d = None \<or> (\<exists>m. fs w ?d = Some (Dir m))"
  proof (cases "fs w ?d")
    case (Some x)
    show ?thesis
    proof (cases x)
      case (File c m)
      with n mk Some have "fst (ensureConfigTomlFromRepo w) = Exit 1" by (simp add: defs)
      with ret show ?thesis by simp
    next
      case (Dir m)
      with Some show ?thesis by simp
    qed
  qed simp
  \<comment> \<open>reading the repository file did not fail\<close>
  have rd: "fault w (ReadFileSync ?r) = None"
  proof (cases "fault w (ReadFileSync ?r)")
    case (Some e)
    with n mk dir have "fst (ensureConfigTomlFromRepo w) = Exit 1" by (auto simp: defs)
    with ret show ?thesis by simp
  qed
  obtain x where x: "fs w ?r = Some x" using n by auto
  obtain c m where c: "fs w ?r = Some (File c m)"
  proof (cases x)
    case (File c m)
    with x that show ?thesis by simp
  next
    case (Dir m)
    with n mk dir rd x have "fst (ensureConfigTomlFromRepo w) = Exit 1" by (auto simp: defs)
    with ret show ?thesis by simp
  qed
  \<comment> \<open>writing the destination did not fail\<close>
  have wr: "fault w (WriteFileSync ?t c 384) = None"
  proof (cases "fault w (WriteFileSync ?t c 384)")
    case (Some e)
    with n mk dir rd c have "fst (ensureConfigTomlFromRepo w) = Exit 1" by (auto simp: defs)
    with ret show ?thesis by simp
  qed
  have dst: "fs w ?t = None \<or> (\<exists>c' m'. fs w ?t = Some (File c' m'))"
  proof (cases "fs w ?t")
    case (Some y)
    show ?thesis
    proof (cases y)
      case (Dir m')
      with n mk dir rd c wr Some have "fst (ensureConfigTomlFromRepo w) = Exit 1" by (auto simp: defs)
      with ret show ?thesis by simp
    next
      case (File c' m')
      with Some show ?thesis by simp
    qed
  qed simp
  show ?thesis
    using n(2) mk dir rd c wr dst by (auto simp: copy_goes_through_def read_content_def)
qed

lemma config_copies:
  assumes ok: "copy_goes_through w"
  shows "fst (ensureConfigTomlFromRepo w) = Return ()
       \<and> read_content (snd (ensureConfigTomlFromRepo w)) (destConfigPath_of w (String (resolve_home w)))
           = read_content w (repoConfigPath_of w)
       \<and> read_content (snd (ensureConfigTomlFromRepo w)) (repoConfigPath_of w)
           = read_content w (repoConfigPath_of w)
       \<and> read_content w (repoConfigPath_of w) \<noteq> None"
proof -
  let ?d = "codexDir_of w (String (resolve_home w))"
  let ?r = "repoConfigPath_of w"
  let ?t = "destConfigPath_of w (String (resolve_home w))"
  note defs = ensureConfig_unfold Let_def split_beta fs_ops
  from ok have home: "truthy (resolve_home w)" and mk: "fault w (MkdirSync ?d) = None"
    and rd: "fault w (ReadFileSync ?r) = None"
    by (simp_all add: copy_goes_through_def)
  obtain h where h: "os_homedir w = Inr h"
    using truthy_home_returns[OF home] by blast
  from ok have dir: "fs w ?d = None \<or> (\<exists>m. fs w ?d = Some (Dir m))"
    by (auto simp: copy_goes_through_def read_content_def split: option.splits node.splits)
  from ok obtain c m where c: "fs w ?r = Some (File c m)"
    by (auto simp: copy_goes_through_def split: option.splits node.splits)
  from ok c have wr: "fault w (WriteFileSync ?t c 384) = None"
    by (simp add: copy_goes_through_def)
  from ok have dst: "fs w ?t = None \<or> (\<exists>c' m'. fs w ?t = Some (File c' m'))"
    by (auto simp: copy_goes_through_def split: option.splits node.splits)
  have "fst (ensureConfigTomlFromRepo w) = Return ()
      \<and> read_content (snd (ensureConfigTomlFromRepo w)) ?t = Some c
      \<and> read_content (snd (ensureConfigTomlFromRepo w)) ?r = Some c"
  proof (cases "fault w (ChmodSync ?t 384)")
    case None
    with home h mk dir rd c wr dst show ?thesis by (auto simp: defs read_content_def written_def)
  next
    case (Some e)
    with home h mk dir rd c wr dst show ?thesis by (auto simp: defs read_content_def written_def)
  qed
  then show ?thesis using c by (simp add: read_content_def)
qed

lemma config_returns_iff: "fst (ensureConfigTomlFromRepo w) = Return () \<longleftrightarrow> copy_goes_through w"
  using config_returns_then[of w] config_copies[of w] by blast

lemma config_done:
  assumes ret: "fst (ensureConfigTomlFromRepo w) = Return ()"
  shows "\<exists>c. read_content w (repoConfigPath_of w) = Some c
           \<and> read_content (snd (ensureConfigTomlFromRepo w)) (destConfigPath_of w (String (resolve_home w))) = Some c
           \<and> read_content (snd (ensureConfigTomlFromRepo w)) (repoConfigPath_of w) = Some c"
  using config_copies[OF config_returns_then[OF ret]] by auto

lemma fs_main_tail: "fs (snd (main w)) = fs (snd (provision w))"
  by (simp add: snd_main split: result.splits option.splits)

lemma main_done:
  assumes "fst (main w) = Return ()"
  shows "fst (provision w) = Return ()" and "fst (ensureAuthFromEnvIfMissing (probe w)) = Return ()"
    and "fst (ensureConfigTomlFromRepo (snd (ensureAuthFromEnvIfMissing (probe w)))) = Return ()"
proof -
  show 1: "fst (provision w) = Return ()"
    using assms by (cases "fst (provision w)") (simp_all add: fst_main)
  show 2: "fst (ensureAuthFromEnvIfMissing (probe w)) = Return ()"
    using 1 by (cases "fst (ensureAuthFromEnvIfMissing (probe w))") (simp_all add: fst_provision)
  show "fst (ensureConfigTomlFromRepo (snd (ensureAuthFromEnvIfMissing (probe w)))) = Return ()"
    using 1 2 by (simp add: fst_provision)
qed

lemma main_copies:
  assumes "fst (main w) = Return ()"
  shows "\<exists>c. read_content w (repoConfigPath_of w) = Some c
           \<and> read_content (snd (main w)) (destConfigPath_of w (String (resolve_home w))) = Some c
           \<and> read_content (snd (main w)) (repoConfigPath_of w) = Some c"
proof -
  let ?w1 = "probe w"
  let ?w2 = "snd (ensureAuthFromEnvIfMissing ?w1)"
  note d = main_done[OF assms]
  have "keeps (repoConfigPath_of w) ?w1 ?w2"
    by (rule keeps_ensureAuth) simp_all
  then have r2: "read_content ?w2 (repoConfigPath_of w) = read_content w (repoConfigPath_of w)"
    by (simp add: keeps_def read_content_def)
  have e: "snd (provision w) = snd (ensureConfigTomlFromRepo ?w2)"
    using d(2) by (simp add: snd_provision)
  have rc: "read_content (snd (main w)) p = read_content (snd (ensureConfigTomlFromRepo ?w2)) p" for p
    by (simp add: read_content_def fs_main_tail e)
  from config_done[OF d(3)] show ?thesis
    by (simp add: rc r2)
qed

subsection \<open>Entrypoint resolution\<close>













subsection \<open>The encoding of the credential\<close>

lemma utf8_Cons: "utf8 (c # s) = utf8_unit c @ utf8 s"
  by (simp add: utf8_def)

lemma utf8_Nil [simp]: "utf8 [] = []"
  by (simp add: utf8_def)

lemma decode_low: "of_char b < (128::nat) \<Longrightarrow> utf8_decode (b # bs) = b # utf8_decode bs"
  by (cases bs) simp_all

lemma of_char_less_256: "of_char (c::char) < (256::nat)"
  using of_char_mod_256[of c, where ?'a = nat] by (metis mod_less_divisor zero_less_numeral)

lemma decode_high:
  assumes "\<not> of_char c < (128::nat)"
  shows "utf8_decode (utf8_unit c @ bs) = c # utf8_decode bs"
proof -
  let ?n = "of_char c :: nat"
  have lt: "?n < 256" by (rule of_char_less_256)
  have d: "?n div 64 < 4" using lt by arith
  have m1: "(192 + ?n div 64) mod 256 = 192 + ?n div 64"
    using d by simp
  show ?thesis
    using assms by (simp add: utf8_unit_def m1)
qed

lemma utf8_decode_utf8: "utf8_decode (utf8 s) = s"
proof (induction s)
  case Nil
  then show ?case by simp
next
  case (Cons c s)
  show ?case
  proof (cases "of_char c < (128::nat)")
    case True
    then show ?thesis by (simp add: utf8_Cons utf8_unit_def decode_low Cons.IH)
  next
    case False
    then show ?thesis by (simp add: utf8_Cons decode_high Cons.IH)
  qed
qed

lemma utf8_ascii: "list_all (\<lambda>c. of_char c < (128::nat)) s \<Longrightarrow> utf8 s = s"
  by (induction s) (simp_all add: utf8_Cons utf8_unit_def)

section \<open>The claims\<close>




text \<open>
  C2 (as the code has it). Let the home directory resolve, no node exist at the credential
  path, and the credential variable hold a value \<open>v\<close> that \<^verbatim>\<open>trim()\<close> does not reduce
  to the empty string. If creating \<^verbatim>\<open>~/.codex\<close> succeeds (no failure, and no file in its
  place) and the write does not fail, the credential step returns, \<^verbatim>\<open>~/.codex\<close> is a
  directory, and the bytes of the credential file are the UTF-8 encoding of \<open>v\<close>, still
  so at the end of the run: read as UTF-8 the file says \<open>v\<close>, and its bytes are the characters
  of \<open>v\<close> when all of them are below 128. On a platform other than win32 its mode is 0600
  (384) when \<^verbatim>\<open>chmod\<close> succeeds or the umask leaves the owner's bits, and 0600 less the
  umask otherwise. If one of the two calls fails, the process exits with 1; the credential
  file is then absent, or, when the write failed after it had opened the file, holds the
  bytes written until then.
\<close>

theorem credential_created:
  assumes due: "credential_due w" and v: "env w ''CODEX_AUTH_JSON'' = Some v"
  shows "(fault w (MkdirSync (codexDir_of w (String (resolve_home w)))) = None
          \<and> read_content w (codexDir_of w (String (resolve_home w))) = None
          \<and> fault w (WriteFileSync (authPath_of w (String (resolve_home w))) (utf8 v) 384) = None
          \<longrightarrow>
            fst (ensureAuthFromEnvIfMissing w) = Return ()
            \<and> read_content (snd (ensureAuthFromEnvIfMissing w)) (authPath_of w (String (resolve_home w)))
                = Some (utf8 v)
            \<and> (\<exists>m. fs (snd (ensureAuthFromEnvIfMissing w)) (codexDir_of w (String (resolve_home w))) = Some (Dir m))
            \<and> fst (ensureAuthFromEnvIfMissing (probe w)) = Return ()
            \<and> read_content (snd (main w)) (authPath_of w (String (resolve_home w))) = Some (utf8 v)
            \<and> map_option utf8_decode (read_content (snd (main w)) (authPath_of w (String (resolve_home w))))
                = Some v
            \<and> (list_all (\<lambda>c. of_char c < (128::nat)) v \<longrightarrow>
                 read_content (snd (main w)) (authPath_of w (String (resolve_home w))) = Some v)
            \<and> (platform w \<noteq> ''win32'' \<longrightarrow>
                 fs (snd (main w)) (authPath_of w (String (resolve_home w))) =
                   Some (File (utf8 v)
                     (if fault w (ChmodSync (authPath_of w (String (resolve_home w))) 384) = None
                      then 384 else 384 AND NOT (umask w)))
                 \<and> (fault w (ChmodSync (authPath_of w (String (resolve_home w))) 384) = None
                      \<or> umask w AND 384 = 0
                    \<longrightarrow> fs (snd (main w)) (authPath_of w (String (resolve_home w)))
                          = Some (File (utf8 v) 384))))
       \<and> (\<not> (fault w (MkdirSync (codexDir_of w (String (resolve_home w)))) = None
              \<and> read_content w (codexDir_of w (String (resolve_home w))) = None
              \<and> fault w (WriteFileSync (authPath_of w (String (resolve_home w))) (utf8 v) 384) = None)
          \<longrightarrow>
            fst (ensureAuthFromEnvIfMissing w) = Exit 1
            \<and> fst (main w) = Exit 1
            \<and> read_content (snd (main w)) (authPath_of w (String (resolve_home w))) =
                (if fault w (MkdirSync (codexDir_of w (String (resolve_home w)))) = None
                    \<and> read_content w (codexDir_of w (String (resolve_home w))) = None
                 then map_option (\<lambda>n. take n (utf8 v))
                        (torn w (WriteFileSync (authPath_of w (String (resolve_home w))) (utf8 v) 384))
                 else None))"
proof -
  let ?a = "authPath_of w (String (resolve_home w))"
  let ?d = "codexDir_of w (String (resolve_home w))"
  let ?ok = "fault w (MkdirSync ?d) = None \<and> read_content w ?d = None
      \<and> fault w (WriteFileSync ?a (utf8 v) 384) = None"
  let ?M = "if fault w (ChmodSync ?a 384) = None then 384 else 384 AND NOT (umask w)"
  let ?w1 = "probe w"
  let ?w2 = "snd (ensureAuthFromEnvIfMissing ?w1)"
  have due1: "credential_due ?w1" using due static_due[of ?w1 w] by simp
  have v1: "env ?w1 ''CODEX_AUTH_JSON'' = Some v" using v by simp
  have rc1: "read_content ?w1 p = read_content w p" for p by (simp add: read_content_def)
  have k: "keeps ?a ?w2 (snd (main w))"
    by (rule keeps_after_auth) simp_all
  have good: "fst (ensureAuthFromEnvIfMissing w) = Return ()
      \<and> read_content (snd (ensureAuthFromEnvIfMissing w)) ?a = Some (utf8 v)
      \<and> (\<exists>m. fs (snd (ensureAuthFromEnvIfMissing w)) ?d = Some (Dir m))
      \<and> fst (ensureAuthFromEnvIfMissing ?w1) = Return ()
      \<and> read_content (snd (main w)) ?a = Some (utf8 v)
      \<and> map_option utf8_decode (read_content (snd (main w)) ?a) = Some v
      \<and> (list_all (\<lambda>c. of_char c < (128::nat)) v \<longrightarrow> read_content (snd (main w)) ?a = Some v)
      \<and> (platform w \<noteq> ''win32'' \<longrightarrow>
            fs (snd (main w)) ?a = Some (File (utf8 v) ?M)
            \<and> (fault w (ChmodSync ?a 384) = None \<or> umask w AND 384 = 0
                 \<longrightarrow> fs (snd (main w)) ?a = Some (File (utf8 v) 384)))"
    if ok: ?ok
  proof -
    from ok have mk: "fault w (MkdirSync ?d) = None" and nf: "read_content w ?d = None"
      and wr: "fault w (WriteFileSync ?a (utf8 v) 384) = None" by simp_all
    note s = auth_due_written[OF due v mk nf wr]
    have mk1: "fault ?w1 (MkdirSync (codexDir_of ?w1 (String (resolve_home ?w1)))) = None"
      using mk by simp
    have nf1: "read_content ?w1 (codexDir_of ?w1 (String (resolve_home ?w1))) = None"
      using nf by (simp add: rc1)
    have wr1: "fault ?w1 (WriteFileSync (authPath_of ?w1 (String (resolve_home ?w1))) (utf8 v) 384) = None"
      using wr by simp
    note s1 = auth_due_written[OF due1 v1 mk1 nf1 wr1]
    have f2: "fs ?w2 ?a = Some (File (utf8 v) ?M)"
      using s1 by simp
    have fm: "fs (snd (main w)) ?a = Some (File (utf8 v) ?M)"
      using k f2 by (simp add: keeps_def)
    have dir: "\<exists>m. fs (snd (ensureAuthFromEnvIfMissing w)) ?d = Some (Dir m)"
      using s nf by (auto simp: read_content_def split: option.splits node.splits)
    have m384: "?M = 384" if "fault w (ChmodSync ?a 384) = None \<or> umask w AND 384 = 0"
      using that mode_survives_umask[of "umask w"] by auto
    have rm: "read_content (snd (main w)) ?a = Some (utf8 v)"
      using fm by (simp add: read_content_def)
    have asc: "read_content (snd (main w)) ?a = Some v" if "list_all (\<lambda>c. of_char c < (128::nat)) v"
      using rm utf8_ascii[OF that] by simp
    have r0: "fst (ensureAuthFromEnvIfMissing w) = Return ()"
      and rs: "read_content (snd (ensureAuthFromEnvIfMissing w)) ?a = Some (utf8 v)"
      using s by (simp_all add: read_content_def)
    have r1: "fst (ensureAuthFromEnvIfMissing ?w1) = Return ()"
      using s1 by simp
    show ?thesis
      using r0 rs dir r1 rm asc fm m384 by (simp add: utf8_decode_utf8)
  qed
  have bad: "fst (ensureAuthFromEnvIfMissing w) = Exit 1 \<and> fst (main w) = Exit 1
      \<and> read_content (snd (main w)) ?a =
          (if fault w (MkdirSync ?d) = None \<and> read_content w ?d = None
           then map_option (\<lambda>n. take n (utf8 v)) (torn w (WriteFileSync ?a (utf8 v) 384))
           else None)"
    if nok: "\<not> ?ok"
  proof -
    note s = auth_due_failed[OF due v nok]
    have nok1: "\<not> (fault ?w1 (MkdirSync (codexDir_of ?w1 (String (resolve_home ?w1)))) = None
        \<and> read_content ?w1 (codexDir_of ?w1 (String (resolve_home ?w1))) = None
        \<and> fault ?w1 (WriteFileSync (authPath_of ?w1 (String (resolve_home ?w1))) (utf8 v) 384) = None)"
      using nok by (simp add: rc1)
    note s1 = auth_due_failed[OF due1 v1 nok1]
    have x: "fst (main w) = Exit 1"
      using s1 by (simp add: fst_main fst_provision)
    have "fs (snd (main w)) ?a = fs ?w2 ?a"
      using k by (simp add: keeps_def)
    then have "read_content (snd (main w)) ?a =
          (if fault w (MkdirSync ?d) = None \<and> read_content w ?d = None
           then map_option (\<lambda>n. take n (utf8 v)) (torn w (WriteFileSync ?a (utf8 v) 384))
           else None)"
      using s1 by (simp add: read_content_def rc1 split: option.splits)
    then show ?thesis using s x by simp
  qed
  show ?thesis
    using good bad by blast
qed

theorem credential_created_witness:
  "fst (ensureAuthFromEnvIfMissing w_secret) = Return ()
   \<and> fs (snd (main w_secret)) ''/home/u/.codex/auth.json'' = Some (File ''secret-blob'' 384)
   \<and> read_content (snd (main w_secret)) ''/home/u/.codex/auth.json'' = Some ''secret-blob''
   \<and> map_option utf8_decode (read_content (snd (main w_secret_accent)) ''/home/u/.codex/auth.json'')
       = Some [CHR ''k'', char_of (233::nat)]
   \<and> fst (main w_write_fails) = Exit 1
   \<and> read_content (snd (main w_write_fails)) ''/home/u/.codex/auth.json'' = None
   \<and> fst (main w_write_torn6) = Exit 1
   \<and> read_content (snd (main w_write_torn6)) ''/home/u/.codex/auth.json'' = Some ''secret''"
proof -
  have a: "authPath_of w_secret (String (resolve_home w_secret)) = ''/home/u/.codex/auth.json''"
    "codexDir_of w_secret (String (resolve_home w_secret)) = ''/home/u/.codex''"
    "authPath_of w_secret_accent (String (resolve_home w_secret_accent)) = ''/home/u/.codex/auth.json''"
    "codexDir_of w_secret_accent (String (resolve_home w_secret_accent)) = ''/home/u/.codex''"
    "authPath_of w_write_fails (String (resolve_home w_write_fails)) = ''/home/u/.codex/auth.json''"
    "codexDir_of w_write_fails (String (resolve_home w_write_fails)) = ''/home/u/.codex''"
    "authPath_of w_write_torn6 (String (resolve_home w_write_torn6)) = ''/home/u/.codex/auth.json''"
    "codexDir_of w_write_torn6 (String (resolve_home w_write_torn6)) = ''/home/u/.codex''"
    by code_simp+
  have u: "utf8 ''secret-blob'' = ''secret-blob''" by code_simp
  have d1: "credential_due w_secret" by code_simp
  have v1: "env w_secret ''CODEX_AUTH_JSON'' = Some ''secret-blob''" by code_simp
  have ok1: "fault w_secret (MkdirSync ''/home/u/.codex'') = None"
    "read_content w_secret ''/home/u/.codex'' = None"
    "fault w_secret (WriteFileSync ''/home/u/.codex/auth.json'' ''secret-blob'' 384) = None"
    "fault w_secret (ChmodSync ''/home/u/.codex/auth.json'' 384) = None"
    "platform w_secret \<noteq> ''win32''"
    by code_simp+
  have d3: "credential_due w_secret_accent" by code_simp
  have v3: "env w_secret_accent ''CODEX_AUTH_JSON'' = Some [CHR ''k'', char_of (233::nat)]" by code_simp
  have ok3: "fault w_secret_accent (MkdirSync ''/home/u/.codex'') = None"
    "read_content w_secret_accent ''/home/u/.codex'' = None"
    "fault w_secret_accent (WriteFileSync ''/home/u/.codex/auth.json'' (utf8 [CHR ''k'', char_of (233::nat)]) 384) = None"
    by code_simp+
  have d2: "credential_due w_write_fails" by code_simp
  have v2: "env w_write_fails ''CODEX_AUTH_JSON'' = Some ''secret-blob''" by code_simp
  have bad2: "fault w_write_fails (WriteFileSync ''/home/u/.codex/auth.json'' ''secret-blob'' 384) \<noteq> None"
    by code_simp
  have e2: "(if fault w_write_fails (MkdirSync ''/home/u/.codex'') = None
                \<and> read_content w_write_fails ''/home/u/.codex'' = None
             then map_option (\<lambda>n. take n ''secret-blob'')
                    (torn w_write_fails (WriteFileSync ''/home/u/.codex/auth.json'' ''secret-blob'' 384))
             else None) = None"
    by code_simp
  have d4: "credential_due w_write_torn6" by code_simp
  have v4: "env w_write_torn6 ''CODEX_AUTH_JSON'' = Some ''secret-blob''" by code_simp
  have bad4: "fault w_write_torn6 (WriteFileSync ''/home/u/.codex/auth.json'' ''secret-blob'' 384) \<noteq> None"
    by code_simp
  have e4: "(if fault w_write_torn6 (MkdirSync ''/home/u/.codex'') = None
                \<and> read_content w_write_torn6 ''/home/u/.codex'' = None
             then map_option (\<lambda>n. take n ''secret-blob'')
                    (torn w_write_torn6 (WriteFileSync ''/home/u/.codex/auth.json'' ''secret-blob'' 384))
             else None) = Some ''secret''"
    by code_simp
  note t1 = credential_created[OF d1 v1, unfolded a u]
  note t2 = credential_created[OF d2 v2, unfolded a u]
  note t3 = credential_created[OF d3 v3, unfolded a]
  note t4 = credential_created[OF d4 v4, unfolded a u]
  from t1 ok1 have c1: "fst (ensureAuthFromEnvIfMissing w_secret) = Return ()"
    and c2: "fs (snd (main w_secret)) ''/home/u/.codex/auth.json'' = Some (File ''secret-blob'' 384)"
    and c3: "read_content (snd (main w_secret)) ''/home/u/.codex/auth.json'' = Some ''secret-blob''"
    by blast+
  from t3 ok3 have c4: "map_option utf8_decode (read_content (snd (main w_secret_accent)) ''/home/u/.codex/auth.json'')
       = Some [CHR ''k'', char_of (233::nat)]"
    by blast
  from t2 bad2 have c5: "fst (main w_write_fails) = Exit 1"
    and "read_content (snd (main w_write_fails)) ''/home/u/.codex/auth.json'' =
          (if fault w_write_fails (MkdirSync ''/home/u/.codex'') = None
                \<and> read_content w_write_fails ''/home/u/.codex'' = None
             then map_option (\<lambda>n. take n ''secret-blob'')
                    (torn w_write_fails (WriteFileSync ''/home/u/.codex/auth.json'' ''secret-blob'' 384))
             else None)"
    by blast+
  then have c6: "read_content (snd (main w_write_fails)) ''/home/u/.codex/auth.json'' = None"
    by (simp only: e2)
  from t4 bad4 have c7: "fst (main w_write_torn6) = Exit 1"
    and "read_content (snd (main w_write_torn6)) ''/home/u/.codex/auth.json'' =
          (if fault w_write_torn6 (MkdirSync ''/home/u/.codex'') = None
                \<and> read_content w_write_torn6 ''/home/u/.codex'' = None
             then map_option (\<lambda>n. take n ''secret-blob'')
                    (torn w_write_torn6 (WriteFileSync ''/home/u/.codex/auth.json'' ''secret-blob'' 384))
             else None)"
    by blast+
  then have c8: "read_content (snd (main w_write_torn6)) ''/home/u/.codex/auth.json'' = Some ''secret''"
    by (simp only: e4)
  show ?thesis using c1 c2 c3 c4 c5 c6 c7 c8 by blast
qed

text \<open>A value of two spaces is not empty, and no credential file is created. A write that
  fails at the open ends the run with 1 and without the file, and one that fails after
  the open leaves an empty file. A failing \<^verbatim>\<open>chmod\<close> under a umask of 0777 leaves the
  file with mode 0. And for a value with the code unit 233 the file holds the three bytes
  107, 195, 169, not the two code units.\<close>

theorem blank_value_creates_nothing:
  "env w_blank ''CODEX_AUTH_JSON'' = Some ''  ''
   \<and> fs w_blank ''/home/u/.codex/auth.json'' = None
   \<and> fst (main w_blank) = Return ()
   \<and> fs (snd (main w_blank)) ''/home/u/.codex/auth.json'' = None
   \<and> fst (main w_write_fails) = Exit 1
   \<and> fs (snd (main w_write_fails)) ''/home/u/.codex/auth.json'' = None
   \<and> fst (main w_write_torn) = Exit 1
   \<and> fs (snd (main w_write_torn)) ''/home/u/.codex/auth.json'' = Some (File [] 384)
   \<and> fs (snd (main w_chmod_fails)) ''/home/u/.codex/auth.json'' = Some (File ''secret-blob'' 0)
   \<and> env w_secret_accent ''CODEX_AUTH_JSON'' = Some [CHR ''k'', char_of (233::nat)]
   \<and> map_option (map (of_char :: char \<Rightarrow> nat))
        (read_content (snd (main w_secret_accent)) ''/home/u/.codex/auth.json'') = Some [107, 195, 169]"
  by code_simp

text \<open>
  C3. Let the home directory resolve and a node exist at the credential path. Then,
  whatever the credential variable holds, the run leaves that node as it is, and the only
  call of the whole run on that path is the existence check: nothing reads, writes,
  stats or chmods it. The credential step returns after the check and its log line, and
  in the world the run ends in it does the same again and changes no file.
\<close>

theorem existing_credential_untouched:
  assumes home: "truthy (resolve_home w)"
    and there: "fs w (authPath_of w (String (resolve_home w))) \<noteq> None"
  shows "fs (snd (main w)) (authPath_of w (String (resolve_home w))) = fs w (authPath_of w (String (resolve_home w)))
       \<and> filter (opens (authPath_of w (String (resolve_home w)))) (events w (snd (main w))) = []
       \<and> fst (ensureAuthFromEnvIfMissing w) = Return ()
       \<and> fs (snd (ensureAuthFromEnvIfMissing w)) = fs w
       \<and> events w (snd (ensureAuthFromEnvIfMissing w)) =
           [FsCall (ExistsSync (authPath_of w (String (resolve_home w)))),
            Log INFO (''auth path: '' @ authPath_of w (String (resolve_home w)) @ '' exists=true'')]
       \<and> fst (ensureAuthFromEnvIfMissing (snd (main w))) = Return ()
       \<and> fs (snd (ensureAuthFromEnvIfMissing (snd (main w)))) = fs (snd (main w))
       \<and> filter is_write (events (snd (main w)) (snd (ensureAuthFromEnvIfMissing (snd (main w))))) = []"
proof -
  let ?a = "authPath_of w (String (resolve_home w))"
  let ?w1 = "probe w"
  let ?w2 = "snd (ensureAuthFromEnvIfMissing ?w1)"
  let ?P = "\<lambda>e. \<not> opens ?a e"
  have home1: "truthy (resolve_home ?w1)" using home by simp
  have there1: "fs ?w1 (authPath_of ?w1 (String (resolve_home ?w1))) \<noteq> None" using there by simp
  note a1 = auth_exists[OF home1 there1]
  have w2: "?w2 = info (''auth path: '' @ ?a @ '' exists=true'') (emit (FsCall (ExistsSync ?a)) ?w1)"
    by (simp add: a1)
  \<comment> \<open>the node stays\<close>
  have k2: "keeps ?a ?w1 ?w2"
    unfolding w2 by (intro keeps_intros)
  have k3: "keeps ?a ?w2 (snd (ensureConfigTomlFromRepo ?w2))"
    by (rule keeps_ensureConfig) simp_all
  have kp: "keeps ?a w (snd (provision w))"
    by (rule provision_rel[where R = "keeps ?a"]) (auto intro: keeps_trans keeps_probe k2 k3)
  have km: "keeps ?a w (snd (main w))"
    by (rule main_rel[where R = "keeps ?a"])
      (auto intro: keeps_trans kp keeps_findLocal keeps_verify keeps_emit)
  \<comment> \<open>no call opens it\<close>
  have e1: "ext ?P w ?w1"
    by (rule ext_probe) (simp_all add: output_not_opens)
  have e2: "ext ?P ?w1 ?w2"
    unfolding w2 by (intro ext_intros ext_refl) simp_all
  have e3: "ext ?P ?w2 (snd (ensureConfigTomlFromRepo ?w2))"
  proof (rule ext_ensureConfig)
    fix c
    assume "fsop_path c = repoConfigPath_of ?w2 \<or> fsop_path c = destConfigPath_of ?w2 (String (resolve_home ?w2))
        \<or> fsop_path c = codexDir_of ?w2 (String (resolve_home ?w2))"
    then have "fsop_path c \<noteq> ?a" by auto
    then show "\<not> opens ?a (FsCall c)" using opens_path by blast
  qed (simp add: output_not_opens)
  have ep: "ext ?P w (snd (provision w))"
    by (rule provision_rel[where R = "ext ?P"]) (auto intro: ext_trans e1 e2 e3)
  have ef: "ext ?P v (snd (findLocalCodexEntrypoint v))" for v
    by (rule ext_findLocal) (simp_all add: output_not_opens)
  have ev: "ext ?P v (snd (verifyLocalCodex e v))" for v e
    by (rule ext_verify) (simp_all add: output_not_opens)
  have el: "ext ?P v (emit (Log l m) v)" for v l m
    by (rule ext_emit) simp_all
  have em: "ext ?P w (snd (main w))"
    by (rule main_rel[where R = "ext ?P"]) (auto intro: ext_trans ep ef ev el)
  have c2: "filter (opens ?a) (events w (snd (main w))) = []"
    by (intro filter_none ext_events em)
  \<comment> \<open>the credential step, now and on a later run\<close>
  note a0 = auth_exists[OF home there]
  have c1: "fs (snd (main w)) ?a = fs w ?a"
    using km by (simp add: keeps_def)
  have homem: "truthy (resolve_home (snd (main w)))" using home by simp
  have therem: "fs (snd (main w)) (authPath_of (snd (main w)) (String (resolve_home (snd (main w))))) \<noteq> None"
    using there c1 by simp
  note am = auth_exists[OF homem therem]
  show ?thesis
    using c1 c2 by (simp add: a0 am events_def)
qed

theorem existing_credential_untouched_witness:
  "fs (snd (main w_authexists)) ''/home/u/.codex/auth.json'' = Some (File ''old-secret'' 384)
   \<and> filter (opens ''/home/u/.codex/auth.json'') (events w_authexists (snd (main w_authexists))) = []
   \<and> fst (ensureAuthFromEnvIfMissing w_authexists) = Return ()
   \<and> fst (main w_authexists) = Return ()"
proof -
  have h: "truthy (resolve_home w_authexists)" by code_simp
  have a: "authPath_of w_authexists (String (resolve_home w_authexists)) = ''/home/u/.codex/auth.json''"
    by code_simp
  have f: "fs w_authexists ''/home/u/.codex/auth.json'' = Some (File ''old-secret'' 384)" by code_simp
  have t: "fs w_authexists (authPath_of w_authexists (String (resolve_home w_authexists))) \<noteq> None"
    by (simp add: a f)
  have m: "fst (main w_authexists) = Return ()" by code_simp
  note th = existing_credential_untouched[OF h t, unfolded a]
  from th have c1: "fs (snd (main w_authexists)) ''/home/u/.codex/auth.json'' = fs w_authexists ''/home/u/.codex/auth.json''"
    and c2: "filter (opens ''/home/u/.codex/auth.json'') (events w_authexists (snd (main w_authexists))) = []"
    and c3: "fst (ensureAuthFromEnvIfMissing w_authexists) = Return ()"
    by blast+
  show ?thesis using c1 c2 c3 m by (simp add: f)
qed

text \<open>
  C4. In a run that reaches the verification step (provisioning returned and an entrypoint
  \<open>e\<close> was resolved), the subprocess is \<open>e\<close> with \<^verbatim>\<open>--version\<close> appended. When it
  exits with a status \<open>s\<close> other than 0, the process exits with \<open>s\<close>; when its status
  is null (killed by a signal, or never spawned), the process exits with 1.
\<close>

theorem verification_status_propagates:
  assumes "fst (provision w) = Return ()"
    and "fst (findLocalCodexEntrypoint (snd (provision w))) = Some e"
  shows "(\<forall>s. res_status (spawn w (command e) (args e @ [''--version''])) = Some s \<and> s \<noteq> 0
            \<longrightarrow> fst (main w) = Exit s \<and> exit_code (main w) = s)
       \<and> (res_status (spawn w (command e) (args e @ [''--version''])) = None
            \<longrightarrow> fst (main w) = Exit 1 \<and> exit_code (main w) = 1)"
proof -
  let ?w4 = "snd (findLocalCodexEntrypoint (snd (provision w)))"
  have m: "fst (main w) =
      (case fst (verifyLocalCodex e ?w4) of Exit c \<Rightarrow> Exit c | Return u \<Rightarrow> Return ())"
    using assms by (simp add: main_provision split_beta split: result.splits)
  have sp: "spawn ?w4 = spawn w" by simp
  show ?thesis
    by (simp add: m fst_verify sp exit_code_def)
qed

theorem verification_status_propagates_witness:
  "fst (main w_status3) = Exit 3 \<and> exit_code (main w_status3) = 3
   \<and> fst (main w_killed) = Exit 1 \<and> exit_code (main w_killed) = 1"
proof -
  let ?e = "\<lparr>command = ''/usr/bin/node'', args = [''/repo/node_modules/@openai/codex/bin/codex.js'']\<rparr>"
  have p3: "fst (provision w_status3) = Return ()" by code_simp
  have f3: "fst (findLocalCodexEntrypoint (snd (provision w_status3))) = Some ?e" by code_simp
  have s3: "res_status (spawn w_status3 (command ?e) (args ?e @ [''--version''])) = Some 3" by code_simp
  have pk: "fst (provision w_killed) = Return ()" by code_simp
  have fk: "fst (findLocalCodexEntrypoint (snd (provision w_killed))) = Some ?e" by code_simp
  have sk: "res_status (spawn w_killed (command ?e) (args ?e @ [''--version''])) = None" by code_simp
  show ?thesis
    using verification_status_propagates[OF p3 f3] verification_status_propagates[OF pk fk] s3 sk
    by simp
qed

text \<open>
  C5 (as the code has it). A run that ends in \<^verbatim>\<open>process.exit\<close> never exits with 0, and its
  status is 1, or 2, or the status of the verification subprocess: the run reached the
  verification step and the version query of the resolved entrypoint ended with that
  status.
\<close>

theorem fatal_exit_codes:
  assumes "fst (main w) = Exit c"
  shows "c \<noteq> 0 \<and> (c = 1 \<or> c = 2 \<or>
       (\<exists>e. fst (provision w) = Return ()
          \<and> fst (findLocalCodexEntrypoint (snd (provision w))) = Some e
          \<and> res_status (spawn w (command e) (args e @ [''--version''])) = Some c))"
proof (cases "fst (provision w)")
  case (Exit x)
  then have "x = c" using assms by (simp add: fst_main)
  moreover have "x = 1 \<or> x = 2"
    using Exit fst_ensureAuth_exit[of "probe w" x]
      fst_ensureConfig_exit[of "snd (ensureAuthFromEnvIfMissing (probe w))" x]
    by (auto simp: fst_provision split: result.splits)
  ultimately show ?thesis by auto
next
  case (Return u)
  note r = this
  show ?thesis
  proof (cases "fst (findLocalCodexEntrypoint (snd (provision w)))")
    case None
    then show ?thesis using r assms by (simp add: fst_main)
  next
    case (Some e)
    have sp: "spawn (snd (findLocalCodexEntrypoint (snd (provision w)))) = spawn w" by simp
    show ?thesis
      using r Some assms
      by (auto simp: fst_main fst_verify sp split: result.splits option.splits if_splits)
  qed
qed

theorem fatal_exit_codes_witness:
  "fst (main w_status3) = Exit 3
   \<and> (\<exists>e. fst (findLocalCodexEntrypoint (snd (provision w_status3))) = Some e
          \<and> res_status (spawn w_status3 (command e) (args e @ [''--version''])) = Some 3)"
proof -
  have h: "fst (main w_status3) = Exit 3" by code_simp
  show ?thesis using fatal_exit_codes[OF h] h by simp
qed

text \<open>The version query of \<open>w_status3\<close> exits with 3, and so does the process: a fatal exit
  outside 1 and 2.\<close>

theorem exit_code_outside_1_2:
  "fst (main w_status3) = Exit 3 \<and> exit_code (main w_status3) \<notin> {1, 2}"
  by code_simp




text \<open>
  C7. The configuration step returns exactly when the copy goes through: the home
  directory resolves, the repository path holds a file, and creating the directory,
  reading and writing do not fail; whether \<^verbatim>\<open>~/.codex\<close> or the destination is there
  already plays no part. Whenever it returns, the file at \<^verbatim>\<open>~/.codex/config.toml\<close>
  holds exactly the bytes the repository file held, whatever was at the destination
  before, and the repository file still holds them. A run succeeds exactly when the
  credential step returns, the copy goes through, and the resolved entrypoint answers the
  version query with status 0; the same is true of the two files at its end. So two
  successful runs over repository files with the same content leave the same content at
  their destinations, and a second successful run from the world the first one ended in
  leaves the destination content as it is.
\<close>

theorem config_copy_idempotent:
  "(fst (ensureConfigTomlFromRepo w) = Return () \<longleftrightarrow> copy_goes_through w)
   \<and> (fst (ensureConfigTomlFromRepo w) = Return () \<longrightarrow>
      read_content w (repoConfigPath_of w) \<noteq> None
      \<and> read_content (snd (ensureConfigTomlFromRepo w)) (destConfigPath_of w (String (resolve_home w)))
          = read_content w (repoConfigPath_of w)
      \<and> read_content (snd (ensureConfigTomlFromRepo w)) (repoConfigPath_of w)
          = read_content w (repoConfigPath_of w))
   \<and> (fst (main w) = Return () \<longleftrightarrow>
        fst (ensureAuthFromEnvIfMissing (probe w)) = Return ()
        \<and> copy_goes_through (snd (ensureAuthFromEnvIfMissing (probe w)))
        \<and> (\<exists>e. fst (findLocalCodexEntrypoint (snd (provision w))) = Some e
              \<and> res_status (spawn w (command e) (args e @ [''--version''])) = Some 0))
   \<and> (fst (main w) = Return () \<longrightarrow>
      read_content w (repoConfigPath_of w) \<noteq> None
      \<and> read_content (snd (main w)) (destConfigPath_of w (String (resolve_home w)))
          = read_content w (repoConfigPath_of w)
      \<and> read_content (snd (main w)) (repoConfigPath_of w) = read_content w (repoConfigPath_of w)
      \<and> (\<forall>w'. fst (main w') = Return ()
                \<and> read_content w' (repoConfigPath_of w') = read_content w (repoConfigPath_of w)
            \<longrightarrow> read_content (snd (main w')) (destConfigPath_of w' (String (resolve_home w')))
                = read_content (snd (main w)) (destConfigPath_of w (String (resolve_home w))))
      \<and> (fst (main (snd (main w))) = Return ()
            \<longrightarrow> read_content (snd (main (snd (main w)))) (destConfigPath_of w (String (resolve_home w)))
                = read_content (snd (main w)) (destConfigPath_of w (String (resolve_home w)))))"
proof -
  let ?w2 = "snd (ensureAuthFromEnvIfMissing (probe w))"
  let ?w4 = "snd (findLocalCodexEntrypoint (snd (provision w)))"
  have iff: "fst (ensureConfigTomlFromRepo w) = Return () \<longleftrightarrow> copy_goes_through w"
    by (rule config_returns_iff)
  have step: "read_content w (repoConfigPath_of w) \<noteq> None
      \<and> read_content (snd (ensureConfigTomlFromRepo w)) (destConfigPath_of w (String (resolve_home w)))
          = read_content w (repoConfigPath_of w)
      \<and> read_content (snd (ensureConfigTomlFromRepo w)) (repoConfigPath_of w)
          = read_content w (repoConfigPath_of w)"
    if "fst (ensureConfigTomlFromRepo w) = Return ()"
    using config_done[OF that] by auto
  have prov: "fst (provision w) = Return () \<longleftrightarrow>
      fst (ensureAuthFromEnvIfMissing (probe w)) = Return () \<and> copy_goes_through ?w2"
    by (cases "fst (ensureAuthFromEnvIfMissing (probe w))")
      (simp_all add: fst_provision config_returns_iff[of ?w2])
  have sp: "spawn ?w4 = spawn w" by simp
  have ver: "fst (verifyLocalCodex e ?w4) = Return () \<longleftrightarrow>
      res_status (spawn w (command e) (args e @ [''--version''])) = Some 0" for e
    by (simp add: fst_verify sp split: option.splits)
  have m0: "fst (main w) = Return () \<longleftrightarrow>
      fst (provision w) = Return ()
      \<and> (\<exists>e. fst (findLocalCodexEntrypoint (snd (provision w))) = Some e
            \<and> fst (verifyLocalCodex e ?w4) = Return ())"
    by (cases "fst (provision w)"; cases "fst (findLocalCodexEntrypoint (snd (provision w)))")
      (auto simp: fst_main split: result.splits)
  have miff: "fst (main w) = Return () \<longleftrightarrow>
        fst (ensureAuthFromEnvIfMissing (probe w)) = Return ()
        \<and> copy_goes_through ?w2
        \<and> (\<exists>e. fst (findLocalCodexEntrypoint (snd (provision w))) = Some e
              \<and> res_status (spawn w (command e) (args e @ [''--version''])) = Some 0)"
    unfolding m0 prov ver by blast
  have run: "read_content v (repoConfigPath_of v) \<noteq> None
      \<and> read_content (snd (main v)) (destConfigPath_of v (String (resolve_home v)))
          = read_content v (repoConfigPath_of v)
      \<and> read_content (snd (main v)) (repoConfigPath_of v) = read_content v (repoConfigPath_of v)"
    if "fst (main v) = Return ()" for v
    using main_copies[OF that] by auto
  have two: "read_content (snd (main w')) (destConfigPath_of w' (String (resolve_home w')))
                = read_content (snd (main w)) (destConfigPath_of w (String (resolve_home w)))"
    if "fst (main w) = Return ()" "fst (main w') = Return ()"
      "read_content w' (repoConfigPath_of w') = read_content w (repoConfigPath_of w)" for w'
    using run[OF that(1)] run[OF that(2)] that(3) by simp
  have again: "read_content (snd (main (snd (main w)))) (destConfigPath_of w (String (resolve_home w)))
                = read_content (snd (main w)) (destConfigPath_of w (String (resolve_home w)))"
    if "fst (main w) = Return ()" "fst (main (snd (main w))) = Return ()"
    using run[OF that(1)] run[OF that(2)] by simp
  have main_part: "fst (main w) = Return () \<longrightarrow>
      read_content w (repoConfigPath_of w) \<noteq> None
      \<and> read_content (snd (main w)) (destConfigPath_of w (String (resolve_home w)))
          = read_content w (repoConfigPath_of w)
      \<and> read_content (snd (main w)) (repoConfigPath_of w) = read_content w (repoConfigPath_of w)
      \<and> (\<forall>w'. fst (main w') = Return ()
                \<and> read_content w' (repoConfigPath_of w') = read_content w (repoConfigPath_of w)
            \<longrightarrow> read_content (snd (main w')) (destConfigPath_of w' (String (resolve_home w')))
                = read_content (snd (main w)) (destConfigPath_of w (String (resolve_home w))))
      \<and> (fst (main (snd (main w))) = Return ()
            \<longrightarrow> read_content (snd (main (snd (main w)))) (destConfigPath_of w (String (resolve_home w)))
                = read_content (snd (main w)) (destConfigPath_of w (String (resolve_home w))))"
    using run[of w] two again by blast
  show ?thesis
    using iff step miff main_part by (intro conjI) (assumption | blast)+
qed

theorem config_copy_idempotent_witness:
  "fst (ensureConfigTomlFromRepo w_stale_dir) = Return ()
   \<and> read_content w_stale_dir ''/home/u/.codex/config.toml'' = Some ''model = old''
   \<and> read_content (snd (ensureConfigTomlFromRepo w_stale_dir)) ''/home/u/.codex/config.toml'' = Some ''model = o3''
   \<and> fst (main w_stale_dir) = Return ()
   \<and> read_content (snd (main w_stale_dir)) ''/home/u/.codex/config.toml'' = Some ''model = o3''
   \<and> read_content (snd (main w_stale)) ''/home/u/.codex/config.toml'' = Some ''model = o3''
   \<and> read_content (snd (main base_world)) ''/home/u/.codex/config.toml'' = Some ''model = o3''
   \<and> read_content (snd (main (snd (main base_world)))) ''/home/u/.codex/config.toml'' = Some ''model = o3''"
proof -
  let ?e = "\<lparr>command = ''/usr/bin/node'', args = [''/repo/node_modules/@openai/codex/bin/codex.js'']\<rparr>"
  have p: "destConfigPath_of w_stale_dir (String (resolve_home w_stale_dir)) = ''/home/u/.codex/config.toml''"
    "destConfigPath_of w_stale (String (resolve_home w_stale)) = ''/home/u/.codex/config.toml''"
    "destConfigPath_of base_world (String (resolve_home base_world)) = ''/home/u/.codex/config.toml''"
    by code_simp+
  have r: "read_content w_stale_dir (repoConfigPath_of w_stale_dir) = Some ''model = o3''"
    "read_content w_stale (repoConfigPath_of w_stale) = Some ''model = o3''"
    "read_content base_world (repoConfigPath_of base_world) = Some ''model = o3''"
    by code_simp+
  have old: "read_content w_stale_dir ''/home/u/.codex/config.toml'' = Some ''model = old''" by code_simp
  have g: "copy_goes_through w_stale_dir" by code_simp
  have a: "fst (ensureAuthFromEnvIfMissing (probe w_stale_dir)) = Return ()" by code_simp
  have g2: "copy_goes_through (snd (ensureAuthFromEnvIfMissing (probe w_stale_dir)))" by code_simp
  have f: "fst (findLocalCodexEntrypoint (snd (provision w_stale_dir))) = Some ?e" by code_simp
  have s: "res_status (spawn w_stale_dir (command ?e) (args ?e @ [''--version''])) = Some 0" by code_simp
  have m: "fst (main w_stale) = Return ()" "fst (main base_world) = Return ()"
    "fst (main (snd (main base_world))) = Return ()"
    by code_simp+
  note t0 = config_copy_idempotent[of w_stale_dir, unfolded p r]
  note t1 = config_copy_idempotent[of w_stale, unfolded p r]
  note t2 = config_copy_idempotent[of base_world, unfolded p r]
  from t0 g have c1: "fst (ensureConfigTomlFromRepo w_stale_dir) = Return ()" by blast
  from t0 c1 have c2: "read_content (snd (ensureConfigTomlFromRepo w_stale_dir)) ''/home/u/.codex/config.toml''
      = Some ''model = o3''" by blast
  from f s have "\<exists>e. fst (findLocalCodexEntrypoint (snd (provision w_stale_dir))) = Some e
      \<and> res_status (spawn w_stale_dir (command e) (args e @ [''--version''])) = Some 0" by blast
  with t0 a g2 have c3: "fst (main w_stale_dir) = Return ()" by blast
  from t0 c3 have c4: "read_content (snd (main w_stale_dir)) ''/home/u/.codex/config.toml'' = Some ''model = o3''"
    by blast
  from t1 m have c5: "read_content (snd (main w_stale)) ''/home/u/.codex/config.toml'' = Some ''model = o3''"
    by blast
  from t2 m have c6: "read_content (snd (main base_world)) ''/home/u/.codex/config.toml'' = Some ''model = o3''"
    by blast
  from t2 m have "read_content (snd (main (snd (main base_world)))) ''/home/u/.codex/config.toml''
      = read_content (snd (main base_world)) ''/home/u/.codex/config.toml''"
    by blast
  with c6 have c7: "read_content (snd (main (snd (main base_world)))) ''/home/u/.codex/config.toml'' = Some ''model = o3''"
    by simp
  show ?thesis using c1 old c2 c3 c4 c5 c6 c7 by blast
qed

text \<open>
  C8. The probe changes no file and makes no call that writes. Whatever the lookup of
  \<^verbatim>\<open>node\<close> returns, the probe ends by logging \<^verbatim>\<open>node resolved ok=...\<close> (false when
  the status is not 0), a spawn error is logged as an error line, and the next event of
  the run is the first action of the credential step: the existence check of the
  credential file, or the warning that no home directory resolves, or, when
  \<^verbatim>\<open>os.homedir()\<close> throws there, the report of the uncaught exception.
\<close>

theorem probe_is_not_fatal:
  "fs (probe w) = fs w
   \<and> filter is_write (events w (probe w)) = []
   \<and> (res_status (spawn w (if platform w = ''win32'' then ''where'' else ''which'') [''node'']) \<noteq> Some 0
        \<longrightarrow> Log INFO ''node resolved ok=false'' \<in> set (events w (probe w)))
   \<and> (\<forall>e. res_error (spawn w (if platform w = ''win32'' then ''where'' else ''which'') [''node'']) = Some e
        \<longrightarrow> Log ERROR (''spawn error: '' @ (if message e \<noteq> [] then message e else error_toString e))
              \<in> set (events w (probe w)))
   \<and> (\<exists>es. events w (snd (main w)) =
          events w (probe w)
          @ (case os_homedir w of
               Inl thrown \<Rightarrow> Uncaught thrown
             | Inr h \<Rightarrow>
                 if truthy (resolve_home w) then FsCall (ExistsSync (authPath_of w (String (resolve_home w))))
                 else Log WARN ''Could not resolve home directory; skip ~/.codex/auth.json bootstrap'') # es)"
proof -
  have 3: "Log INFO ''node resolved ok=false'' \<in> set (events w (probe w))"
    if "res_status (spawn w (if platform w = ''win32'' then ''where'' else ''which'') [''node'']) \<noteq> Some 0"
    using probe_last[of w] that by (auto simp: show_bool_def)
  let ?first = "case os_homedir w of
               Inl thrown \<Rightarrow> Uncaught thrown
             | Inr h \<Rightarrow>
                 if truthy (resolve_home w) then FsCall (ExistsSync (authPath_of w (String (resolve_home w))))
                 else Log WARN ''Could not resolve home directory; skip ~/.codex/auth.json bootstrap''"
  obtain es where "trace (snd (ensureAuthFromEnvIfMissing (probe w))) =
     trace (probe w) @
       (case os_homedir (probe w) of
          Inl thrown \<Rightarrow> Uncaught thrown
        | Inr h \<Rightarrow>
            if truthy (resolve_home (probe w))
            then FsCall (ExistsSync (authPath_of (probe w) (String (resolve_home (probe w)))))
            else Log WARN ''Could not resolve home directory; skip ~/.codex/auth.json bootstrap'') # es"
    using auth_starts[of "probe w"] by blast
  then have "events (probe w) (snd (ensureAuthFromEnvIfMissing (probe w))) = ?first # es"
    by (simp add: events_def split: sum.splits)
  then have 5: "\<exists>es. events w (snd (main w)) = events w (probe w) @ ?first # es"
    by (simp add: events_main_split)
  show ?thesis
    using 3 probe_error_logged[of w] 5 by (simp add: probe_no_write)
qed

theorem probe_is_not_fatal_witness:
  "Log INFO ''node resolved ok=false'' \<in> set (events w_lookup_fails (probe w_lookup_fails))
   \<and> fs (probe w_lookup_fails) = fs w_lookup_fails
   \<and> (\<exists>es. events w_lookup_fails (snd (main w_lookup_fails)) =
          events w_lookup_fails (probe w_lookup_fails) @ FsCall (ExistsSync ''/home/u/.codex/auth.json'') # es)"
proof -
  have o: "os_homedir w_lookup_fails = Inr ''/home/u''" by code_simp
  have s: "res_status (spawn w_lookup_fails (if platform w_lookup_fails = ''win32'' then ''where'' else ''which'') [''node''])
      \<noteq> Some 0" by code_simp
  have t: "truthy (resolve_home w_lookup_fails)" by code_simp
  have a: "authPath_of w_lookup_fails (String (resolve_home w_lookup_fails)) = ''/home/u/.codex/auth.json''"
    by code_simp
  note th = probe_is_not_fatal[of w_lookup_fails]
  from th s have c1: "Log INFO ''node resolved ok=false'' \<in> set (events w_lookup_fails (probe w_lookup_fails))"
    by blast
  from th have c2: "fs (probe w_lookup_fails) = fs w_lookup_fails" by blast
  from th have "\<exists>es. events w_lookup_fails (snd (main w_lookup_fails)) =
          events w_lookup_fails (probe w_lookup_fails)
          @ (case os_homedir w_lookup_fails of
               Inl thrown \<Rightarrow> Uncaught thrown
             | Inr h \<Rightarrow>
                 if truthy (resolve_home w_lookup_fails)
                 then FsCall (ExistsSync (authPath_of w_lookup_fails (String (resolve_home w_lookup_fails))))
                 else Log WARN ''Could not resolve home directory; skip ~/.codex/auth.json bootstrap'') # es"
    by blast
  then have c3: "\<exists>es. events w_lookup_fails (snd (main w_lookup_fails)) =
          events w_lookup_fails (probe w_lookup_fails) @ FsCall (ExistsSync ''/home/u/.codex/auth.json'') # es"
    using t by (simp add: a o)
  show ?thesis using c1 c2 c3 by blast
qed

text \<open>
  C9 (as the code has it). Let \<^verbatim>\<open>os.homedir()\<close> return, and let no home directory resolve:
  its result, \<^verbatim>\<open>HOME\<close> and \<^verbatim>\<open>USERPROFILE\<close> are all empty or unset. Then the credential
  step logs a warning and returns. The configuration step checks the repository file
  first: it exits with 2 when that file is missing, and with 1 (logging that HOME is not
  set) when the file is there. The run as a whole ends the same way and changes no file.
\<close>

theorem no_home_asymmetry:
  assumes returns: "os_homedir w = Inr h" and nohome: "\<not> truthy (resolve_home w)"
  shows "ensureAuthFromEnvIfMissing w =
           (Return (), warn ''Could not resolve home directory; skip ~/.codex/auth.json bootstrap'' w)
       \<and> fst (ensureConfigTomlFromRepo w) = (if fs w (repoConfigPath_of w) = None then Exit 2 else Exit 1)
       \<and> (fs w (repoConfigPath_of w) \<noteq> None \<longrightarrow>
            Log ERROR ''HOME not set; cannot locate ~/.codex for config.toml''
              \<in> set (events w (snd (ensureConfigTomlFromRepo w))))
       \<and> fst (main w) = (if fs w (repoConfigPath_of w) = None then Exit 2 else Exit 1)
       \<and> fs (snd (main w)) = fs w"
proof -
  let ?w1 = "probe w"
  have o1: "os_homedir ?w1 = Inr h" using returns by simp
  have h1: "\<not> truthy (resolve_home ?w1)" using nohome by simp
  note a = auth_nohome[OF o1 h1]
  let ?w2 = "snd (ensureAuthFromEnvIfMissing ?w1)"
  have w2: "?w2 = warn ''Could not resolve home directory; skip ~/.codex/auth.json bootstrap'' ?w1"
    by (simp add: a)
  have fs2: "fs ?w2 = fs w" by (simp add: w2)
  have o2: "os_homedir ?w2 = Inr h" using returns by simp
  have h2: "\<not> truthy (resolve_home ?w2)" using nohome by simp
  have r2: "repoConfigPath_of ?w2 = repoConfigPath_of w" by simp
  have c: "fst (ensureConfigTomlFromRepo v) = (if fs v (repoConfigPath_of v) = None then Exit 2 else Exit 1)
      \<and> fs (snd (ensureConfigTomlFromRepo v)) = fs v"
    if "os_homedir v = Inr h" "\<not> truthy (resolve_home v)" for v
    using that config_absent[of v] config_nohome[of v h] by (cases "fs v (repoConfigPath_of v) = None") simp_all
  have p: "fst (provision w) = (if fs w (repoConfigPath_of w) = None then Exit 2 else Exit 1)"
    using c[OF o2 h2] by (simp add: fst_provision a fs2 r2)
  have ps: "fs (snd (provision w)) = fs w"
    using c[OF o2 h2] by (simp add: snd_provision a fs2)
  have m1: "fst (main w) = (if fs w (repoConfigPath_of w) = None then Exit 2 else Exit 1)"
    by (simp add: fst_main p)
  have m2: "fs (snd (main w)) = fs w"
    by (simp add: snd_main p ps)
  have l: "fs w (repoConfigPath_of w) \<noteq> None \<longrightarrow>
            Log ERROR ''HOME not set; cannot locate ~/.codex for config.toml''
              \<in> set (events w (snd (ensureConfigTomlFromRepo w)))"
    using returns nohome by (auto simp: config_nohome[of w h] events_def)
  show ?thesis
    using auth_nohome[OF returns nohome] c[OF returns nohome] m1 m2 l by simp
qed

theorem no_home_asymmetry_witness:
  "ensureAuthFromEnvIfMissing w_nohome =
      (Return (), warn ''Could not resolve home directory; skip ~/.codex/auth.json bootstrap'' w_nohome)
   \<and> fst (ensureConfigTomlFromRepo w_nohome) = Exit 1
   \<and> fst (main w_nohome) = Exit 1"
proof -
  have o: "os_homedir w_nohome = Inr []" by code_simp
  have h: "\<not> truthy (resolve_home w_nohome)" by code_simp
  have r: "fs w_nohome (repoConfigPath_of w_nohome) \<noteq> None" by code_simp
  show ?thesis using no_home_asymmetry[OF o h] r by simp
qed

text \<open>Without a home directory and without the repository file, the configuration step
  exits with 2, not 1. And when \<^verbatim>\<open>os.homedir()\<close> throws, also with \<^verbatim>\<open>USERPROFILE\<close> set,
  the credential step logs no warning and does not return: the run ends there with 1,
  before the configuration step.\<close>

theorem no_home_missing_config_exits_2:
  "\<not> truthy (resolve_home w_nohome_noconfig)
   \<and> fst (ensureConfigTomlFromRepo w_nohome_noconfig) = Exit 2
   \<and> fst (main w_nohome_noconfig) = Exit 2
   \<and> \<not> truthy (resolve_home w_homedir_throws)
   \<and> fst (ensureAuthFromEnvIfMissing w_homedir_throws) = Exit 1
   \<and> events w_homedir_throws (snd (ensureAuthFromEnvIfMissing w_homedir_throws)) = [Uncaught no_passwd_entry]
   \<and> fst (main w_homedir_throws) = Exit 1
   \<and> FsCall (ExistsSync ''/repo/.codex/config.toml'') \<notin> set (events w_homedir_throws (snd (main w_homedir_throws)))
   \<and> env w_homedir_throws_userprofile ''USERPROFILE'' = Some ''/home/u''
   \<and> fst (ensureAuthFromEnvIfMissing w_homedir_throws_userprofile) = Exit 1"
  by code_simp




end
